theory Spec2Isabelle
  imports Complex_Main "HOL-Library.Product_Lexorder" "HOL-Library.List_Lexorder"
    "HOL-Library.Char_ord" "HOL-Library.Log_Nat"
begin

section \<open>rxvc: the command handlers of \<^verbatim>\<open>rxvc/cli.py\<close>\<close>

text \<open>
  The handlers of \<^verbatim>\<open>cli.py\<close> talk to one receiver object (\<^verbatim>\<open>ctx.obj['avr']\<close>) and
  write lines of text. Both effects are made explicit: a handler is a function on a
  \<open>world\<close> that holds the log of every operation issued to the receiver and every line
  written so far, and it ends either normally or with an uncaught exception.
\<close>

subsection \<open>Python values\<close>

text \<open>
  A value handed over by \<^verbatim>\<open>click.FLOAT\<close> is whatever Python's \<^verbatim>\<open>float()\<close> accepts,
  so besides the finite numbers there are the two infinities and not-a-number. A finite
  float is represented by the real number it denotes (\<^verbatim>\<open>-0.0\<close> is identified with
  \<^verbatim>\<open>0.0\<close>: both are false and neither is below zero).
\<close>

datatype pyfloat = Fin real | PosInf | NegInf | NaN

text \<open>Truth value of a float in \<^verbatim>\<open>if vol:\<close>: only zero is false.\<close>

definition truthy_float :: "pyfloat \<Rightarrow> bool" where
  "truthy_float x = (x \<noteq> Fin 0)"

text \<open>\<^verbatim>\<open>float(vol) < 0\<close>; every comparison with not-a-number is false.\<close>

fun lt_zero :: "pyfloat \<Rightarrow> bool" where
  "lt_zero (Fin r) = (r < 0)"
| "lt_zero PosInf = False"
| "lt_zero NegInf = True"
| "lt_zero NaN = False"

text \<open>\<^verbatim>\<open>v >= 0\<close>, used to state properties of non-negative requests.\<close>

fun ge_zero :: "pyfloat \<Rightarrow> bool" where
  "ge_zero (Fin r) = (0 \<le> r)"
| "ge_zero PosInf = True"
| "ge_zero NegInf = False"
| "ge_zero NaN = False"

text \<open>
  Exceptions: \<^verbatim>\<open>rxv.exceptions.ResponseException\<close> with its text (\<^verbatim>\<open>str(e)\<close>), and
  every other exception under the name of its class.
\<close>

datatype exn = ResponseException string | OtherException string

text \<open>\<^verbatim>\<open>int(vol)\<close> truncates towards zero and raises on an infinity or not-a-number.\<close>

fun py_int :: "pyfloat \<Rightarrow> exn + int" where
  "py_int (Fin r) = Inr (if 0 \<le> r then \<lfloor>r\<rfloor> else \<lceil>r\<rceil>)"
| "py_int PosInf = Inl (OtherException ''OverflowError'')"
| "py_int NegInf = Inl (OtherException ''OverflowError'')"
| "py_int NaN = Inl (OtherException ''ValueError'')"

text \<open>\<^verbatim>\<open>float(delay)\<close>: an argument that is \<^verbatim>\<open>None\<close> raises a \<^verbatim>\<open>TypeError\<close>.\<close>

fun py_float :: "pyfloat option \<Rightarrow> exn + pyfloat" where
  "py_float None = Inl (OtherException ''TypeError'')"
| "py_float (Some d) = Inr d"

subsection \<open>Float arithmetic\<close>

text \<open>
  A Python float is an IEEE-754 double: 53 significant bits, exponents from \<open>-1022\<close> to
  \<open>1023\<close>, results rounded to the nearest double with ties to the even significand.
  \<open>quantum x\<close> is the distance between neighbouring doubles at the magnitude of \<open>x\<close>:
  \<open>2\<^sup>e\<^sup>-\<^sup>5\<^sup>2\<close> for \<open>2\<^sup>e \<le> |x| < 2\<^sup>e\<^sup>+\<^sup>1\<close>, and \<open>2\<^sup>-\<^sup>1\<^sup>0\<^sup>7\<^sup>4\<close> below \<open>2\<^sup>-\<^sup>1\<^sup>0\<^sup>2\<^sup>1\<close>.
  \<open>fl x\<close> is the double that the real result \<open>x\<close> of an operation is rounded to; a
  magnitude that rounds to \<open>2\<^sup>1\<^sup>0\<^sup>2\<^sup>4\<close> or more becomes an infinity.
\<close>

definition round_half_even :: "real \<Rightarrow> int" where
  "round_half_even x =
     (let f = \<lfloor>x\<rfloor>; d = x - of_int f in
      if d < 1 / 2 then f else if 1 / 2 < d then f + 1 else if even f then f else f + 1)"

definition quantum :: "real \<Rightarrow> real" where
  "quantum x = 2 powi (max (bitlen \<lfloor>\<bar>x\<bar> * 2 ^ 1074\<rfloor>) 53 - 1127)"

definition fl :: "real \<Rightarrow> pyfloat" where
  "fl x =
     (let q = quantum x; y = of_int (round_half_even (\<bar>x\<bar> / q)) * q in
      if 2 ^ 1024 \<le> y then (if 0 < x then PosInf else NegInf) else Fin (sgn x * y))"

text \<open>\<^verbatim>\<open>a + b\<close> and \<^verbatim>\<open>a - b\<close> on floats; they never raise.\<close>

fun py_add :: "pyfloat \<Rightarrow> pyfloat \<Rightarrow> pyfloat" where
  "py_add (Fin a) (Fin b) = fl (a + b)"
| "py_add NaN b = NaN"
| "py_add a NaN = NaN"
| "py_add PosInf NegInf = NaN"
| "py_add NegInf PosInf = NaN"
| "py_add PosInf b = PosInf"
| "py_add NegInf b = NegInf"
| "py_add (Fin a) b = b"

fun py_sub :: "pyfloat \<Rightarrow> pyfloat \<Rightarrow> pyfloat" where
  "py_sub (Fin a) (Fin b) = fl (a - b)"
| "py_sub NaN b = NaN"
| "py_sub a NaN = NaN"
| "py_sub PosInf PosInf = NaN"
| "py_sub NegInf NegInf = NaN"
| "py_sub PosInf b = PosInf"
| "py_sub NegInf b = NegInf"
| "py_sub (Fin a) PosInf = NegInf"
| "py_sub (Fin a) NegInf = PosInf"

text \<open>\<^verbatim>\<open>-a\<close> on floats.\<close>

fun py_neg :: "pyfloat \<Rightarrow> pyfloat" where
  "py_neg (Fin a) = Fin (- a)"
| "py_neg PosInf = NegInf"
| "py_neg NegInf = PosInf"
| "py_neg NaN = NaN"

text \<open>\<^verbatim>\<open>a * b\<close> on floats: an infinity times zero is not a number.\<close>

fun py_mul :: "pyfloat \<Rightarrow> pyfloat \<Rightarrow> pyfloat" where
  "py_mul (Fin a) (Fin b) = fl (a * b)"
| "py_mul NaN b = NaN"
| "py_mul a NaN = NaN"
| "py_mul PosInf PosInf = PosInf"
| "py_mul PosInf NegInf = NegInf"
| "py_mul NegInf PosInf = NegInf"
| "py_mul NegInf NegInf = PosInf"
| "py_mul PosInf (Fin b) = (if b = 0 then NaN else if 0 < b then PosInf else NegInf)"
| "py_mul NegInf (Fin b) = (if b = 0 then NaN else if 0 < b then NegInf else PosInf)"
| "py_mul (Fin a) PosInf = (if a = 0 then NaN else if 0 < a then PosInf else NegInf)"
| "py_mul (Fin a) NegInf = (if a = 0 then NaN else if 0 < a then NegInf else PosInf)"

text \<open>
  An \<^verbatim>\<open>int\<close> operand of a float operation is converted first, rounded like every
  result; Python raises \<^verbatim>\<open>OverflowError\<close> where the rounded value is out of range.
\<close>

definition float_of_int :: "int \<Rightarrow> exn + pyfloat" where
  "float_of_int n =
     (case fl (of_int n) of
        Fin r \<Rightarrow> Inr (Fin r)
      | PosInf \<Rightarrow> Inl (OtherException ''OverflowError'')
      | NegInf \<Rightarrow> Inl (OtherException ''OverflowError'')
      | NaN \<Rightarrow> Inl (OtherException ''OverflowError''))"

text \<open>\<^verbatim>\<open>points * 0.5\<close> with \<^verbatim>\<open>points\<close> an \<^verbatim>\<open>int\<close>.\<close>

definition int_times_float :: "int \<Rightarrow> pyfloat \<Rightarrow> exn + pyfloat" where
  "int_times_float n x =
     (case float_of_int n of Inl e \<Rightarrow> Inl e | Inr a \<Rightarrow> Inr (py_mul a x))"

subsection \<open>Strings\<close>

text \<open>
  \<^verbatim>\<open>str.lower()\<close> on ASCII text: the letters A to Z move to a to z, every other
  character stays.
\<close>

definition lower_char :: "char \<Rightarrow> char" where
  "lower_char c =
     (if 65 \<le> (of_char c :: nat) \<and> (of_char c :: nat) \<le> 90
      then char_of (of_char c + 32 :: nat) else c)"

definition lower :: "string \<Rightarrow> string" where
  "lower s = map lower_char s"

text \<open>\<^verbatim>\<open>needle in text\<close> on strings: \<open>needle\<close> occurs as a contiguous part.\<close>

definition starts_with :: "string \<Rightarrow> string \<Rightarrow> bool" where
  "starts_with needle text = (take (length needle) text = needle)"

fun contains :: "string \<Rightarrow> string \<Rightarrow> bool" where
  "contains needle [] = (needle = [])"
| "contains needle (c # cs) = (starts_with needle (c # cs) \<or> contains needle cs)"

subsection \<open>The receiver\<close>

text \<open>
  The status tuples of the \<^verbatim>\<open>rxv\<close> library. The keys of \<^verbatim>\<open>current_list\<close> are the
  positions of the menu lines; their type is left open (any linear order), and the
  dictionary is the list of its items.
\<close>

record BasicStatus =
  bs_on :: bool
  bs_input :: string
  bs_volume :: pyfloat
  bs_mute :: bool

record PlayStatus =
  playing :: bool
  artist :: string
  album :: string
  song :: string
  station :: string

record 'k MenuStatus =
  ready :: bool
  layer :: int
  name :: string
  current_line :: int
  max_line :: int
  current_list :: "('k \<times> string) list"

text \<open>One operation issued to the receiver, with its arguments.\<close>

datatype call =
    GetVolume | SetVolume pyfloat | VolumeFade int pyfloat
  | GetBasicStatus | SetMute bool
  | GetOn | SetOn bool
  | GetOutputs | EnableOutput string bool
  | IsPlaybackSupported | Play | Stop | Pause | Next | Previous | GetPlayStatus
  | GetMenuStatus | MenuUp | MenuDown | MenuLeft | MenuRight | MenuSel | MenuReturn

text \<open>
  The receiver is outside the repository, so it is a parameter: for each attribute or
  method the handlers use, a function from the operations issued so far (and the
  arguments) to either the exception raised or the value returned. Any stateful
  receiver is such a function of its history.
\<close>

record 'k avr =
  get_volume :: "call list \<Rightarrow> exn + pyfloat"
  set_volume :: "call list \<Rightarrow> pyfloat \<Rightarrow> exn + unit"
  volume_fade :: "call list \<Rightarrow> int \<Rightarrow> pyfloat \<Rightarrow> exn + unit"
  basic_status :: "call list \<Rightarrow> exn + BasicStatus"
  set_mute :: "call list \<Rightarrow> bool \<Rightarrow> exn + unit"
  get_on :: "call list \<Rightarrow> exn + bool"
  set_on :: "call list \<Rightarrow> bool \<Rightarrow> exn + unit"
  outputs :: "call list \<Rightarrow> exn + (string \<rightharpoonup> bool)"
  enable_output :: "call list \<Rightarrow> string \<Rightarrow> bool \<Rightarrow> exn + unit"
  is_playback_supported :: "call list \<Rightarrow> exn + bool"
  play :: "call list \<Rightarrow> exn + unit"
  stop :: "call list \<Rightarrow> exn + unit"
  pause :: "call list \<Rightarrow> exn + unit"
  next_track :: "call list \<Rightarrow> exn + unit"
  previous :: "call list \<Rightarrow> exn + unit"
  play_status :: "call list \<Rightarrow> exn + PlayStatus"
  menu_status :: "call list \<Rightarrow> exn + 'k MenuStatus"
  menu_up :: "call list \<Rightarrow> exn + unit"
  menu_down :: "call list \<Rightarrow> exn + unit"
  menu_left :: "call list \<Rightarrow> exn + unit"
  menu_right :: "call list \<Rightarrow> exn + unit"
  menu_sel :: "call list \<Rightarrow> exn + unit"
  menu_return :: "call list \<Rightarrow> exn + unit"

subsection \<open>Output and control flow\<close>

text \<open>
  A written line: the stream, the colour given by \<^verbatim>\<open>click.style\<close>, and the pieces that
  are formatted into it (a float, integer or truth value is kept as the value that
  Python turns into text).
\<close>

datatype piece = PStr string | PFloat pyfloat | PInt int | PBool bool | PNone

datatype stream = Stdout | Stderr

datatype colour = Plain | Red

type_synonym line = "stream \<times> colour \<times> piece list"

record world =
  calls :: "call list"
  out :: "line list"

definition w0 :: world where
  "w0 = \<lparr>calls = [], out = []\<rparr>"

type_synonym 'a io = "world \<Rightarrow> (exn + 'a) \<times> world"

definition ret :: "'a \<Rightarrow> 'a io" where
  "ret x w = (Inr x, w)"

definition io_raise :: "exn \<Rightarrow> 'a io" where
  "io_raise e w = (Inl e, w)"

definition lift :: "exn + 'a \<Rightarrow> 'a io" where
  "lift r w = (r, w)"

definition io_bind :: "'a io \<Rightarrow> ('a \<Rightarrow> 'b io) \<Rightarrow> 'b io" where
  "io_bind m f w = (case m w of (Inl e, w') \<Rightarrow> (Inl e, w') | (Inr x, w') \<Rightarrow> f x w')"

definition seq :: "unit io \<Rightarrow> 'b io \<Rightarrow> 'b io" where
  "seq m n = io_bind m (\<lambda>_. n)"

definition io_when :: "bool \<Rightarrow> unit io \<Rightarrow> unit io" where
  "io_when b m = (if b then m else ret ())"

text \<open>\<^verbatim>\<open>try: m except ...: h\<close>; the handler decides which exceptions it lets through.\<close>

definition try_except :: "'a io \<Rightarrow> (exn \<Rightarrow> 'a io) \<Rightarrow> 'a io" where
  "try_except m h w = (case m w of (Inl e, w') \<Rightarrow> h e w' | (Inr x, w') \<Rightarrow> (Inr x, w'))"

definition echo :: "line \<Rightarrow> unit io" where
  "echo l w = (Inr (), w\<lparr>out := out w @ [l]\<rparr>)"

text \<open>\<^verbatim>\<open>print(...)\<close> and \<^verbatim>\<open>click.echo(...)\<close> of unstyled text.\<close>

definition print :: "piece list \<Rightarrow> unit io" where
  "print ps = echo (Stdout, Plain, ps)"

text \<open>An operation on the receiver: it is logged, and the receiver answers.\<close>

definition device :: "call \<Rightarrow> (call list \<Rightarrow> exn + 'a) \<Rightarrow> 'a io" where
  "device c f w = (f (calls w), w\<lparr>calls := calls w @ [c]\<rparr>)"

subsection \<open>volume\<close>

definition volume_usage :: line where
  "volume_usage =
     (Stdout, Plain, [PStr ''Volume must be specified as a negative float in steps of 0.5.''])"

definition step_message :: line where
  "step_message = (Stderr, Red, [PStr ''Volume must be specified in -0.5 increments.''])"

text \<open>
  The body of \<^verbatim>\<open>except ResponseException as e: if "Volume" in str(e): ...\<close>; any other
  exception is not caught.
\<close>

definition volume_rejected :: "exn \<Rightarrow> unit io" where
  "volume_rejected e =
     (case e of
        ResponseException msg \<Rightarrow> io_when (contains ''Volume'' msg) (echo step_message)
      | OtherException c \<Rightarrow> io_raise e)"

definition show_volume :: "'k avr \<Rightarrow> unit io" where
  "show_volume avr = io_bind (device GetVolume (get_volume avr)) (\<lambda>v. print [PFloat v])"

text \<open>\<^verbatim>\<open>vol\<close> is \<^verbatim>\<open>None\<close> when the option \<^verbatim>\<open>-v\<close> is not given.\<close>

definition volume :: "'k avr \<Rightarrow> pyfloat option \<Rightarrow> unit io" where
  "volume avr vol =
     (case vol of
        None \<Rightarrow> show_volume avr
      | Some x \<Rightarrow>
          if truthy_float x then
            (if lt_zero x then
               try_except
                 (seq (device (SetVolume x) (\<lambda>h. set_volume avr h x)) (show_volume avr))
                 volume_rejected
             else echo volume_usage)
          else show_volume avr)"

subsection \<open>up and down\<close>

definition range_message :: line where
  "range_message = (Stdout, Red, [PStr ''New volume must be out of range.''])"

text \<open>
  \<^verbatim>\<open>_adjust_volume\<close>. The new level is computed between the read and the \<^verbatim>\<open>try\<close>, so
  an \<^verbatim>\<open>OverflowError\<close> of \<^verbatim>\<open>points * 0.5\<close> is not caught. \<open>operation\<close> is
  \<^verbatim>\<open>operator.add\<close> or \<^verbatim>\<open>operator.sub\<close>.
\<close>

definition adjust_volume ::
    "'k avr \<Rightarrow> int \<Rightarrow> (pyfloat \<Rightarrow> pyfloat \<Rightarrow> pyfloat) \<Rightarrow> unit io" where
  "adjust_volume avr points operation =
     io_bind (device GetVolume (get_volume avr)) (\<lambda>current_vol.
     io_bind (lift (int_times_float points (Fin 0.5))) (\<lambda>step.
       let new_vol = operation current_vol step in
       try_except
         (seq (device (SetVolume new_vol) (\<lambda>h. set_volume avr h new_vol))
              (print [PFloat new_vol]))
         (\<lambda>e. case e of
                 ResponseException msg \<Rightarrow> echo range_message
               | OtherException c \<Rightarrow> io_raise e)))"

text \<open>
  \<^verbatim>\<open>@click.argument('points', type=click.INT, default=2, required=False)\<close>: the value the
  handler receives for an argument that is given or left out.
\<close>

definition points_argument :: "int option \<Rightarrow> int" where
  "points_argument a = (case a of None \<Rightarrow> 2 | Some n \<Rightarrow> n)"

definition up :: "'k avr \<Rightarrow> int option \<Rightarrow> unit io" where
  "up avr points = adjust_volume avr (points_argument points) py_add"

definition down :: "'k avr \<Rightarrow> int option \<Rightarrow> unit io" where
  "down avr points = adjust_volume avr (points_argument points) py_sub"

subsection \<open>fade\<close>

definition fade_usage :: line where
  "fade_usage =
     (Stdout, Plain,
      [PStr ''Volume must be specified as a negative float in steps of 0.5. Optionally, a delay can be specified in seconds.''])"

text \<open>How \<^verbatim>\<open>format\<close> shows the delay: its value, or \<^verbatim>\<open>None\<close>.\<close>

definition delay_piece :: "pyfloat option \<Rightarrow> piece" where
  "delay_piece delay = (case delay of None \<Rightarrow> PNone | Some d \<Rightarrow> PFloat d)"

definition fade_progress :: "pyfloat \<Rightarrow> pyfloat option \<Rightarrow> line" where
  "fade_progress vol delay =
     (Stdout, Plain,
      [PStr ''Fading receiver volume to '', PFloat vol, PStr '' with delay of '',
       delay_piece delay, PStr '' seconds''])"

text \<open>\<^verbatim>\<open>except ResponseException as e: print(e); if "Volume" in str(e): ...\<close>\<close>

definition fade_rejected :: "exn \<Rightarrow> unit io" where
  "fade_rejected e =
     (case e of
        ResponseException msg \<Rightarrow>
          seq (print [PStr msg]) (io_when (contains ''Volume'' msg) (echo step_message))
      | OtherException c \<Rightarrow> io_raise e)"

text \<open>
  \<^verbatim>\<open>delay\<close> is declared by \<^verbatim>\<open>@click.argument('delay', type=click.FLOAT, required=False)\<close>
  with no default of click's, and click calls the handler with every declared parameter
  as a keyword: a delay that is left out arrives as \<^verbatim>\<open>None\<close>, so the default
  \<^verbatim>\<open>delay=0.5\<close> of the Python signature is never taken.
\<close>

definition fade :: "'k avr \<Rightarrow> pyfloat option \<Rightarrow> pyfloat option \<Rightarrow> unit io" where
  "fade avr vol delay =
     (case vol of
        None \<Rightarrow> echo fade_usage
      | Some x \<Rightarrow>
          if truthy_float x \<and> lt_zero x then
            try_except
              (seq (echo (fade_progress x delay))
                (io_bind (lift (py_int x)) (\<lambda>k.
                 io_bind (lift (py_float delay)) (\<lambda>d.
                   device (VolumeFade k d) (\<lambda>h. volume_fade avr h k d)))))
              fade_rejected
          else echo fade_usage)"

subsection \<open>mute and power\<close>

definition mute_failed :: line where
  "mute_failed = (Stderr, Red, [PStr ''Mute command failed.''])"

definition mute_rejected :: "exn \<Rightarrow> unit io" where
  "mute_rejected e =
     (case e of
        ResponseException msg \<Rightarrow> io_when (contains ''Mute'' msg) (echo mute_failed)
      | OtherException c \<Rightarrow> io_raise e)"

definition show_mute :: "BasicStatus \<Rightarrow> unit io" where
  "show_mute status = print [PStr ''Muted: '', PBool (bs_mute status)]"

text \<open>The argument is \<^verbatim>\<open>None\<close> when left out; \<^verbatim>\<open>if mute:\<close> is false for the empty string too.\<close>

definition mute :: "'k avr \<Rightarrow> string option \<Rightarrow> unit io" where
  "mute avr arg =
     io_bind (device GetBasicStatus (basic_status avr)) (\<lambda>status.
       case arg of
         None \<Rightarrow> show_mute status
       | Some given \<Rightarrow>
           if given \<noteq> [] then
             (let m = lower given in
              try_except
                (seq (device (SetMute (m = ''on'')) (\<lambda>h. set_mute avr h (m = ''on'')))
                     (print [PStr m]))
                mute_rejected)
           else show_mute status)"

definition state_message :: line where
  "state_message = (Stdout, Red, [PStr ''State must be on or off''])"

definition standby_message :: line where
  "standby_message =
     (Stdout, Red,
      [PStr ''Something went wrong. Make sure the Network Standby setting of your receiver is on.''])"

definition show_power :: "'k avr \<Rightarrow> unit io" where
  "show_power avr =
     io_bind (device GetOn (get_on avr)) (\<lambda>on.
       print [PStr (''Power state is '' @ (if on then ''on'' else ''off''))])"

text \<open>The bare \<^verbatim>\<open>except:\<close> of \<^verbatim>\<open>power\<close> catches every exception.\<close>

definition power :: "'k avr \<Rightarrow> string option \<Rightarrow> unit io" where
  "power avr arg =
     (case arg of
        None \<Rightarrow> show_power avr
      | Some given \<Rightarrow>
          if given \<noteq> [] then
            (let state = lower given in
             if state \<in> set [''on'', ''off''] then
               try_except
                 (seq (device (SetOn (state = ''on'')) (\<lambda>h. set_on avr h (state = ''on'')))
                      (print [PStr (''Turned the receiver '' @ state)]))
                 (\<lambda>e. echo standby_message)
             else echo state_message)
          else show_power avr)"

subsection \<open>output\<close>

definition output_invalid :: line where
  "output_invalid =
     (Stdout, Plain,
      [PStr ''That's not a valid output. Run `rxvc outputs' toget a list of them.''])"

definition output_confirmation :: "string \<Rightarrow> string \<Rightarrow> line" where
  "output_confirmation output state =
     (Stdout, Plain, [PStr (''Setting receiver output '' @ output @ '' to '' @ state)])"

text \<open>
  Both arguments are required. \<^verbatim>\<open>outstate\<close> is set by the two tests on \<^verbatim>\<open>state\<close>, which
  is \<^verbatim>\<open>'on'\<close> or \<^verbatim>\<open>'off'\<close> at that point; \<^verbatim>\<open>output in avr.outputs\<close> reads the dictionary of
  outputs from the receiver and tests for a key.
\<close>

definition output_cmd :: "'k avr \<Rightarrow> string \<Rightarrow> string \<Rightarrow> unit io" where
  "output_cmd avr output state =
     (if state \<in> set [''on'', ''off''] then
        (let outstate = (state = ''on'') in
         io_bind (device GetOutputs (outputs avr)) (\<lambda>outs.
           if outs output \<noteq> None then
             seq (echo (output_confirmation output state))
                 (device (EnableOutput output outstate)
                    (\<lambda>h. enable_output avr h output outstate))
           else echo output_invalid))
      else echo state_message)"

subsection \<open>playback\<close>

definition nl :: string where
  "nl = [CHR 0x0A]"

definition playback_unavailable :: line where
  "playback_unavailable =
     (Stdout, Plain, [PStr ''Playback controls are not available for the active input.''])"

definition playback_invalid :: line where
  "playback_invalid =
     (Stdout, Plain,
      [PStr ''That's not a valid playback control command. Valid commandsinclude 'play', 'stop', 'pause', 'next' and 'previous'.''])"

definition show_playback :: "'k avr \<Rightarrow> unit io" where
  "show_playback avr =
     io_bind (device GetPlayStatus (play_status avr)) (\<lambda>status.
       print [PStr (nl @ ''Playing: ''), PBool (playing status),
              PStr (nl @ ''Artist: '' @ artist status @ nl @ ''Album: '' @ album status @ nl
                    @ ''Track: '' @ song status @ nl @ ''Station: '' @ station status @ nl)])"

definition playback :: "'k avr \<Rightarrow> string option \<Rightarrow> unit io" where
  "playback avr arg =
     io_bind (device IsPlaybackSupported (is_playback_supported avr)) (\<lambda>supported.
       if \<not> supported then echo playback_unavailable
       else
         (case arg of
            None \<Rightarrow> show_playback avr
          | Some command \<Rightarrow>
              if command \<noteq> [] then
                (if command \<in> set [''play'', ''stop'', ''pause'', ''next'', ''previous''] then
                   seq (print [PStr (''Sending command '' @ command @ '' to receiver'')])
                  (seq (io_when (command = ''play'') (device Play (play avr)))
                  (seq (io_when (command = ''stop'') (device Stop (stop avr)))
                  (seq (io_when (command = ''pause'') (device Pause (pause avr)))
                  (seq (io_when (command = ''next'') (device Next (next_track avr)))
                       (io_when (command = ''previous'') (device Previous (previous avr)))))))
                 else echo playback_invalid)
              else show_playback avr))"

subsection \<open>menu\<close>

definition menu_unavailable :: line where
  "menu_unavailable = (Stdout, Plain, [PStr ''Menu is currently not available.''])"

definition menu_invalid :: line where
  "menu_invalid =
     (Stdout, Plain,
      [PStr ''That's not a valid menu control command. Valid commands include 'up', 'down', 'left', 'right', 'select' and 'return'.''])"

definition menu_sending :: "string \<Rightarrow> line" where
  "menu_sending command =
     (Stdout, Plain, [PStr (''Sending menu command '' @ command @ '' to receiver'')])"

definition menu_header :: "'k MenuStatus \<Rightarrow> line" where
  "menu_header status =
     (Stdout, Plain,
      [PStr (nl @ ''Ready: ''), PBool (ready status),
       PStr (nl @ ''Layer: ''), PInt (layer status),
       PStr (nl @ ''Name: '' @ name status @ nl @ nl @ ''Total lines: ''),
       PInt (max_line status), PStr nl])"

definition menu_item :: "'k \<times> string \<Rightarrow> line" where
  "menu_item item = (Stdout, Plain, [PStr (''*  '' @ snd item)])"

text \<open>\<^verbatim>\<open>for item in sorted(...): print(...)\<close>\<close>

fun print_all :: "line list \<Rightarrow> unit io" where
  "print_all [] = ret ()"
| "print_all (l # ls) = seq (echo l) (print_all ls)"

text \<open>
  The end of \<^verbatim>\<open>menu\<close>: the status is read again and printed, the items of
  \<^verbatim>\<open>current_list\<close> in the order of \<^verbatim>\<open>sorted\<close> (pairs compare by key, then by text).
\<close>

definition show_menu :: "('k::linorder) avr \<Rightarrow> unit io" where
  "show_menu avr =
     io_bind (device GetMenuStatus (menu_status avr)) (\<lambda>status.
       seq (echo (menu_header status))
           (print_all (map menu_item (sort (current_list status)))))"

text \<open>
  The branch of the unknown command returns at once; every other branch reaches the end
  of the handler.
\<close>

definition menu :: "('k::linorder) avr \<Rightarrow> string option \<Rightarrow> unit io" where
  "menu avr arg =
     io_bind (device GetMenuStatus (menu_status avr)) (\<lambda>gate.
       if \<not> ready gate then echo menu_unavailable
       else
         (case arg of
            None \<Rightarrow> show_menu avr
          | Some command \<Rightarrow>
              if command \<noteq> [] then
                (if command \<in> set [''up'', ''down'', ''left'', ''right'', ''select'', ''return''] then
                   seq (echo (menu_sending command))
                  (seq (io_when (command = ''up'') (device MenuUp (menu_up avr)))
                  (seq (io_when (command = ''down'') (device MenuDown (menu_down avr)))
                  (seq (io_when (command = ''left'') (device MenuLeft (menu_left avr)))
                  (seq (io_when (command = ''right'') (device MenuRight (menu_right avr)))
                  (seq (io_when (command = ''select'') (device MenuSel (menu_sel avr)))
                  (seq (io_when (command = ''return'') (device MenuReturn (menu_return avr)))
                       (show_menu avr)))))))
                 else echo menu_invalid)
              else show_menu avr))"

subsection \<open>Receivers to run the handlers on\<close>

definition sample_menu :: "nat MenuStatus" where
  "sample_menu =
     \<lparr>ready = True, layer = 1, name = ''NET RADIO'', current_line = 1, max_line = 2,
      current_list = [(2, ''Podcasts''), (1, ''Bookmarks'')]\<rparr>"

definition sample_status :: BasicStatus where
  "sample_status = \<lparr>bs_on = True, bs_input = ''HDMI1'', bs_volume = Fin (- 20), bs_mute = True\<rparr>"

definition sample_play :: PlayStatus where
  "sample_play =
     \<lparr>playing = True, artist = ''A'', album = ''B'', song = ''C'', station = ''D''\<rparr>"

text \<open>
  A receiver at \<open>-20.0\<close> dB with one output \<^verbatim>\<open>zoneB\<close>, that accepts every operation.
\<close>

definition sample_avr :: "nat avr" where
  "sample_avr =
     \<lparr>get_volume = (\<lambda>h. Inr (Fin (- 20))),
      set_volume = (\<lambda>h x. Inr ()),
      volume_fade = (\<lambda>h k d. Inr ()),
      basic_status = (\<lambda>h. Inr sample_status),
      set_mute = (\<lambda>h b. Inr ()),
      get_on = (\<lambda>h. Inr True),
      set_on = (\<lambda>h b. Inr ()),
      outputs = (\<lambda>h. Inr [''zoneB'' \<mapsto> False]),
      enable_output = (\<lambda>h n b. Inr ()),
      is_playback_supported = (\<lambda>h. Inr True),
      play = (\<lambda>h. Inr ()),
      stop = (\<lambda>h. Inr ()),
      pause = (\<lambda>h. Inr ()),
      next_track = (\<lambda>h. Inr ()),
      previous = (\<lambda>h. Inr ()),
      play_status = (\<lambda>h. Inr sample_play),
      menu_status = (\<lambda>h. Inr sample_menu),
      menu_up = (\<lambda>h. Inr ()),
      menu_down = (\<lambda>h. Inr ()),
      menu_left = (\<lambda>h. Inr ()),
      menu_right = (\<lambda>h. Inr ()),
      menu_sel = (\<lambda>h. Inr ()),
      menu_return = (\<lambda>h. Inr ())\<rparr>"

text \<open>The same receiver, rejecting every change of volume with the given text.\<close>

definition rejecting_avr :: "string \<Rightarrow> nat avr" where
  "rejecting_avr msg =
     sample_avr
       \<lparr>set_volume := (\<lambda>h x. Inl (ResponseException msg)),
        volume_fade := (\<lambda>h k d. Inl (ResponseException msg))\<rparr>"

text \<open>The same receiver on an input without playback, its menu not ready.\<close>

definition idle_avr :: "nat avr" where
  "idle_avr =
     sample_avr
       \<lparr>is_playback_supported := (\<lambda>h. Inr False),
        menu_status := (\<lambda>h. Inr (sample_menu\<lparr>ready := False\<rparr>))\<rparr>"

section \<open>Properties\<close>

subsection \<open>Unfolding the control flow\<close>

lemmas io_defs = ret_def io_raise_def lift_def io_bind_def seq_def io_when_def
  try_except_def echo_def print_def device_def

subsection \<open>Strings\<close>

text \<open>\<open>contains\<close> is Python's \<^verbatim>\<open>in\<close> on strings: some text before, the needle, some text after.\<close>

lemma contains_iff: "contains needle hay \<longleftrightarrow> (\<exists>p s. hay = p @ needle @ s)"
proof (induction hay)
  case Nil
  then show ?case by auto
next
  case (Cons c cs)
  have "starts_with needle (c # cs) \<longleftrightarrow> (\<exists>s. c # cs = needle @ s)"
    unfolding starts_with_def
    by (metis append_eq_conv_conj append_take_drop_id)
  moreover have "(\<exists>p s. c # cs = p @ needle @ s) \<longleftrightarrow>
      (\<exists>s. c # cs = needle @ s) \<or> (\<exists>p s. cs = p @ needle @ s)"
  proof
    assume "\<exists>p s. c # cs = p @ needle @ s"
    then obtain p s where ps: "c # cs = p @ needle @ s" by blast
    show "(\<exists>s. c # cs = needle @ s) \<or> (\<exists>p s. cs = p @ needle @ s)"
    proof (cases p)
      case Nil
      with ps show ?thesis by auto
    next
      case (Cons a p')
      with ps have "cs = p' @ needle @ s" by simp
      then show ?thesis by blast
    qed
  next
    assume "(\<exists>s. c # cs = needle @ s) \<or> (\<exists>p s. cs = p @ needle @ s)"
    then show "\<exists>p s. c # cs = p @ needle @ s"
    proof
      assume "\<exists>s. c # cs = needle @ s"
      then obtain s where "c # cs = [] @ needle @ s" by auto
      then show ?thesis by blast
    next
      assume "\<exists>p s. cs = p @ needle @ s"
      then obtain p s where "c # cs = (c # p) @ needle @ s" by auto
      then show ?thesis by blast
    qed
  qed
  ultimately show ?case using Cons.IH by simp
qed

subsection \<open>Float arithmetic: what is exact and what overflows\<close>

text \<open>
  Rounding leaves an integer alone and never goes below the floor.
\<close>

lemma round_half_even_of_int: "round_half_even (of_int z) = z"
  by (simp add: round_half_even_def)

lemma round_half_even_ge_floor: "\<lfloor>x\<rfloor> \<le> round_half_even x"
  by (simp add: round_half_even_def Let_def)

lemma round_half_even_zero: "round_half_even 0 = 0"
  using round_half_even_of_int [of 0] by simp

lemma quantum_pos: "0 < quantum x"
  by (simp add: quantum_def)

text \<open>
  Halves of integers below \<open>2\<^sup>5\<^sup>3\<close> in magnitude are doubles: rounding returns them
  unchanged. The levels of a receiver (multiples of \<open>0.5\<close>) and ordinary counts are of
  this kind, so their sums and differences are exact.
\<close>

lemma quantum_half_int:
  assumes "j \<noteq> 0" and "\<bar>j\<bar> < 2 ^ 53"
  shows "quantum (of_int j / 2) = 2 powi (bitlen \<bar>j\<bar> - 54)"
proof -
  have pos: "0 < \<bar>j\<bar>" using assms(1) by simp
  have "\<bar>real_of_int j / 2\<bar> * 2 ^ 1074 = of_int (\<bar>j\<bar> * 2 ^ 1073)"
    by simp
  then have "\<lfloor>\<bar>real_of_int j / 2\<bar> * 2 ^ 1074\<rfloor> = \<bar>j\<bar> * 2 ^ 1073"
    by (metis floor_of_int)
  moreover have "bitlen (\<bar>j\<bar> * 2 ^ 1073) = bitlen \<bar>j\<bar> + 1073"
    using bitlen_pow2 [OF pos, of 1073] by simp
  moreover have "1 \<le> bitlen \<bar>j\<bar>"
    using pos by (simp add: bitlen_ge_iff_power)
  ultimately show ?thesis
    by (simp add: quantum_def)
qed

lemma fl_half_int:
  assumes "\<bar>j\<bar> < 2 ^ 53"
  shows "fl (of_int j / 2) = Fin (of_int j / 2)"
proof (cases "j = 0")
  case True
  then show ?thesis
    by (simp add: fl_def Let_def round_half_even_zero)
next
  case False
  then have pos: "0 < \<bar>j\<bar>" by simp
  have le: "bitlen \<bar>j\<bar> \<le> 53"
    using assms by (simp add: bitlen_le_iff_power)
  define t where "t = nat (53 - bitlen \<bar>j\<bar>)"
  have e: "bitlen \<bar>j\<bar> - 54 = - int (Suc t)"
    using le by (simp add: t_def)
  have p: "(2 :: real) powi (- int (Suc t)) = 1 / 2 ^ Suc t"
    by (simp only: power_int_minus power_int_of_nat inverse_eq_divide)
  have q: "quantum (of_int j / 2) = 1 / 2 ^ Suc t"
    unfolding quantum_half_int [OF False assms] e p ..
  have m: "\<bar>real_of_int j / 2\<bar> / (1 / 2 ^ Suc t) = of_int (\<bar>j\<bar> * 2 ^ t)"
    by simp
  have y: "real_of_int (\<bar>j\<bar> * 2 ^ t) * (1 / 2 ^ Suc t) = \<bar>real_of_int j\<bar> / 2"
    by simp
  have small: "\<not> (2 :: real) ^ 1024 \<le> \<bar>real_of_int j\<bar> / 2"
  proof -
    have "\<bar>real_of_int j\<bar> < 2 ^ 53"
      using assms by (metis of_int_abs of_int_less_numeral_power_cancel_iff)
    then show ?thesis by simp
  qed
  have s: "sgn (real_of_int j / 2) * (\<bar>real_of_int j\<bar> / 2) = real_of_int j / 2"
    by (simp add: sgn_if)
  show ?thesis
    unfolding fl_def Let_def q m round_half_even_of_int y
    using small s by simp
qed

lemma fl_int:
  assumes "\<bar>n\<bar> < 2 ^ 52"
  shows "fl (of_int n) = Fin (of_int n)"
proof -
  have "\<bar>2 * n\<bar> < 2 ^ 53" using assms by simp
  from fl_half_int [OF this] show ?thesis by simp
qed

text \<open>A magnitude of \<open>2\<^sup>1\<^sup>0\<^sup>2\<^sup>4\<close> or more rounds to an infinity.\<close>

lemma fl_overflow:
  assumes "2 ^ 1024 \<le> \<bar>x\<bar>"
  shows "fl x = (if 0 < x then PosInf else NegInf)"
proof -
  define z where "z = \<lfloor>\<bar>x\<bar> * 2 ^ 1074\<rfloor>"
  define k where "k = bitlen z"
  define c where "c = nat (k - 1127)"
  have "(2 :: real) ^ 2098 = 2 ^ 1024 * 2 ^ 1074"
    using power_add [of "2 :: real" 1024 1074] by simp
  also have "\<dots> \<le> \<bar>x\<bar> * 2 ^ 1074"
    using assms by simp
  finally have "real_of_int (2 ^ 2098) \<le> \<bar>x\<bar> * 2 ^ 1074"
    by simp
  then have z: "2 ^ 2098 \<le> z"
    unfolding z_def by (simp only: le_floor_iff)
  moreover have "(0 :: int) < 2 ^ 2098"
    by (rule zero_less_power) simp
  ultimately have zpos: "0 < z"
    by linarith
  have k: "2099 \<le> k"
    unfolding k_def using z by (simp add: bitlen_ge_iff_power)
  then have kc: "k = int c + 1127" and c: "972 \<le> c"
    by (simp_all add: c_def)
  have "max k 53 - 1127 = int c"
    using k by (simp add: c_def)
  then have q: "quantum x = 2 ^ c"
    unfolding quantum_def z_def [symmetric] k_def [symmetric]
    by (simp only: power_int_of_nat)
  have "2 ^ nat (k - 1) \<le> z"
    using bitlen_bounds [OF zpos] by (simp add: k_def)
  moreover have "nat (k - 1) = c + 1126"
    by (simp add: kc)
  ultimately have "real_of_int (2 ^ (c + 1126)) \<le> real_of_int z"
    by (simp only: of_int_le_iff)
  also have "\<dots> \<le> \<bar>x\<bar> * 2 ^ 1074"
    unfolding z_def by (rule of_int_floor_le)
  finally have "(2 :: real) ^ (c + 52) * 2 ^ 1074 \<le> \<bar>x\<bar> * 2 ^ 1074"
    by (simp add: power_add)
  then have "(2 :: real) ^ (c + 52) \<le> \<bar>x\<bar>"
    by simp
  then have "real_of_int (2 ^ 52) \<le> \<bar>x\<bar> / 2 ^ c"
    by (simp add: power_add field_simps)
  then have "2 ^ 52 \<le> \<lfloor>\<bar>x\<bar> / 2 ^ c\<rfloor>"
    by (simp only: le_floor_iff)
  then have "2 ^ 52 \<le> round_half_even (\<bar>x\<bar> / 2 ^ c)"
    using round_half_even_ge_floor [of "\<bar>x\<bar> / 2 ^ c"] by linarith
  then have "real_of_int (2 ^ 52) \<le> real_of_int (round_half_even (\<bar>x\<bar> / 2 ^ c))"
    by (simp only: of_int_le_iff)
  then have "(2 :: real) ^ 52 * 2 ^ c \<le> real_of_int (round_half_even (\<bar>x\<bar> / 2 ^ c)) * 2 ^ c"
    by simp
  moreover have "(2 :: real) ^ 1024 \<le> 2 ^ 52 * 2 ^ c"
  proof -
    have "(2 :: real) ^ 1024 \<le> 2 ^ (52 + c)"
      using c by (intro power_increasing) simp_all
    then show ?thesis by (simp add: power_add)
  qed
  ultimately have "(2 :: real) ^ 1024 \<le> real_of_int (round_half_even (\<bar>x\<bar> / 2 ^ c)) * 2 ^ c"
    by linarith
  then show ?thesis
    by (simp add: fl_def Let_def q)
qed

text \<open>Rounding commutes with the sign, and so do conversion and multiplication.\<close>

lemma fl_minus: "fl (- x) = py_neg (fl x)"
proof (cases "x = 0")
  case True
  then show ?thesis
    by (simp add: fl_def Let_def round_half_even_zero)
next
  case False
  have "quantum (- x) = quantum x"
    by (simp add: quantum_def)
  with False show ?thesis
    by (simp add: fl_def Let_def sgn_if)
qed

lemma float_of_int_small:
  assumes "\<bar>n\<bar> < 2 ^ 52"
  shows "float_of_int n = Inr (Fin (of_int n))"
  by (simp add: float_of_int_def fl_int [OF assms])

lemma float_of_int_overflow:
  assumes "2 ^ 1024 \<le> \<bar>n\<bar>"
  shows "float_of_int n = Inl (OtherException ''OverflowError'')"
proof -
  have "(2 :: real) ^ 1024 \<le> \<bar>real_of_int n\<bar>"
    using assms by (metis of_int_abs of_int_le_iff of_int_numeral of_int_power)
  from fl_overflow [OF this] show ?thesis
    by (simp add: float_of_int_def)
qed

lemma float_of_int_minus:
  "float_of_int (- n) = (case float_of_int n of Inl e \<Rightarrow> Inl e | Inr a \<Rightarrow> Inr (py_neg a))"
  using fl_minus [of "of_int n"]
  by (simp add: float_of_int_def split: pyfloat.splits)

lemma py_mul_neg: "py_mul (py_neg a) (Fin h) = py_neg (py_mul a (Fin h))"
  using fl_minus [of "x * h" for x]
  by (cases a) (simp_all add: fl_minus [symmetric])

lemma int_times_float_minus:
  "int_times_float (- n) (Fin h) =
     (case int_times_float n (Fin h) of Inl e \<Rightarrow> Inl e | Inr s \<Rightarrow> Inr (py_neg s))"
  by (simp add: int_times_float_def float_of_int_minus py_mul_neg split: sum.splits)

lemma py_add_neg: "py_add v (py_neg s) = py_sub v s"
  by (cases v; cases s) simp_all

lemma py_sub_neg: "py_sub v (py_neg s) = py_add v s"
  by (cases v; cases s) simp_all

subsection \<open>Absolute volume\<close>

text \<open>A float below zero is not zero, so it passes \<^verbatim>\<open>if vol:\<close>.\<close>

lemma lt_zero_truthy: "lt_zero x \<Longrightarrow> truthy_float x"
  by (cases x) (auto simp: truthy_float_def)

text \<open>
  A request that is not zero and not below zero is answered by the usage line and
  nothing reaches the receiver; a request below zero is the first thing sent, as it is.
\<close>

lemma volume_positive_usage:
  assumes "truthy_float x" and "\<not> lt_zero x"
  shows "volume avr (Some x) w = (Inr (), w\<lparr>out := out w @ [volume_usage]\<rparr>)"
  using assms by (simp add: volume_def io_defs)

lemma volume_negative_sent:
  assumes "lt_zero x"
  shows "take (Suc (length (calls w))) (calls (snd (volume avr (Some x) w))) = calls w @ [SetVolume x]"
  using assms lt_zero_truthy [OF assms]
  by (simp add: volume_def volume_rejected_def show_volume_def io_defs
      split: sum.splits exn.splits)

text \<open>
  C1. A request \<open>v \<ge> 0\<close> is to be answered by the fixed usage line. At \<open>v = 0\<close> the
  handler does not do so: \<^verbatim>\<open>if vol:\<close> is false for \<^verbatim>\<open>0.0\<close>, so \<^verbatim>\<open>volume -v 0\<close> falls into
  the branch of the missing option, reads the level from the receiver and prints it,
  exactly as \<^verbatim>\<open>volume\<close> without an option.
\<close>

theorem volume_zero_shows_level:
  "ge_zero (Fin 0)
   \<and> volume sample_avr (Some (Fin 0)) w0 =
       (Inr (), \<lparr>calls = [GetVolume], out = [(Stdout, Plain, [PFloat (Fin (- 20))])]\<rparr>)
   \<and> volume sample_avr (Some (Fin 0)) w0 = volume sample_avr None w0"
  by (simp add: volume_def show_volume_def truthy_float_def io_defs sample_avr_def w0_def)

subsection \<open>Relative volume: up and down\<close>

text \<open>
  \<^verbatim>\<open>_adjust_volume\<close> when the count converts to a float: the level is read, the new level
  is set, and the answer of the receiver decides what is printed. When the count does
  not convert, the command ends after the read with the \<^verbatim>\<open>OverflowError\<close>.
\<close>

lemma adjust_volume_run:
  assumes "get_volume avr (calls w) = Inr v" and "float_of_int n = Inr x"
  shows "adjust_volume avr n f w =
     (case set_volume avr (calls w @ [GetVolume]) (f v (py_mul x (Fin 0.5))) of
        Inr u \<Rightarrow>
          (Inr (), w\<lparr>calls := calls w @ [GetVolume, SetVolume (f v (py_mul x (Fin 0.5)))],
                      out := out w @ [(Stdout, Plain, [PFloat (f v (py_mul x (Fin 0.5)))])]\<rparr>)
      | Inl (ResponseException msg) \<Rightarrow>
          (Inr (), w\<lparr>calls := calls w @ [GetVolume, SetVolume (f v (py_mul x (Fin 0.5)))],
                      out := out w @ [(Stdout, Red, [PStr ''New volume must be out of range.''])]\<rparr>)
      | Inl (OtherException c) \<Rightarrow>
          (Inl (OtherException c),
           w\<lparr>calls := calls w @ [GetVolume, SetVolume (f v (py_mul x (Fin 0.5)))]\<rparr>))"
  using assms
  by (simp add: adjust_volume_def int_times_float_def range_message_def io_defs Let_def
      split: sum.splits exn.splits)

lemma adjust_volume_overflow:
  assumes "get_volume avr (calls w) = Inr v" and "2 ^ 1024 \<le> \<bar>n\<bar>"
  shows "adjust_volume avr n f w =
     (Inl (OtherException ''OverflowError''), w\<lparr>calls := calls w @ [GetVolume]\<rparr>)"
  using assms(1) float_of_int_overflow [OF assms(2)]
  by (simp add: adjust_volume_def int_times_float_def io_defs)

text \<open>Negating the count exchanges addition and subtraction.\<close>

lemma adjust_volume_minus:
  "adjust_volume avr (- n) py_add = adjust_volume avr n py_sub"
  "adjust_volume avr (- n) py_sub = adjust_volume avr n py_add"
  by (rule ext,
      simp add: adjust_volume_def int_times_float_minus py_add_neg py_sub_neg io_defs Let_def
        split: sum.splits)+

text \<open>
  For a count and a level (in half steps) below \<open>2\<^sup>5\<^sup>2\<close> in magnitude, the float
  arithmetic of \<^verbatim>\<open>current_vol + points * 0.5\<close> is the exact arithmetic.
\<close>

lemma half_step_exact:
  assumes "\<bar>n\<bar> < 2 ^ 52" and "\<bar>k\<bar> < 2 ^ 52"
  shows "float_of_int n = Inr (Fin (of_int n))"
    and "py_add (Fin (of_int k / 2)) (py_mul (Fin (of_int n)) (Fin 0.5)) =
          Fin (of_int k / 2 + 0.5 * of_int n)"
    and "py_sub (Fin (of_int k / 2)) (py_mul (Fin (of_int n)) (Fin 0.5)) =
          Fin (of_int k / 2 - 0.5 * of_int n)"
proof -
  show "float_of_int n = Inr (Fin (of_int n))"
    by (rule float_of_int_small [OF assms(1)])
  have n: "\<bar>n\<bar> < 2 ^ 53" using assms(1) by simp
  note m = fl_half_int [OF n]
  have "\<bar>k + n\<bar> < 2 ^ 53" and "\<bar>k - n\<bar> < 2 ^ 53"
    using assms by simp_all
  from fl_half_int [OF this(1)] fl_half_int [OF this(2)]
  show "py_add (Fin (of_int k / 2)) (py_mul (Fin (of_int n)) (Fin 0.5)) =
          Fin (of_int k / 2 + 0.5 * of_int n)"
    and "py_sub (Fin (of_int k / 2)) (py_mul (Fin (of_int n)) (Fin 0.5)) =
          Fin (of_int k / 2 - 0.5 * of_int n)"
    by (simp_all add: m add_divide_distrib diff_divide_distrib)
qed

text \<open>
  C2, as stated, fails in two places. The new value is not always printed: when the
  receiver rejects the set (here at \<open>-20.0\<close>, no argument, new level \<open>-19.0\<close>),
  the out-of-range line is printed instead. And not every integer count leads to a set:
  \<^verbatim>\<open>up 10\<^sup>4\<^sup>0\<^sup>0\<close> raises \<^verbatim>\<open>OverflowError\<close> in \<^verbatim>\<open>points * 0.5\<close> after the level was read.
\<close>

theorem up_rejected_prints_no_level:
  "up (rejecting_avr ''Out of range'') None w0 =
     (Inr (), \<lparr>calls = [GetVolume, SetVolume (Fin (- 19))],
               out = [(Stdout, Red, [PStr ''New volume must be out of range.''])]\<rparr>)
   \<and> up sample_avr (Some (10 ^ 400)) w0 =
     (Inl (OtherException ''OverflowError''), \<lparr>calls = [GetVolume], out = []\<rparr>)"
proof -
  have s: "\<bar>2 :: int\<bar> < 2 ^ 52" "\<bar>- 40 :: int\<bar> < 2 ^ 52"
    by simp_all
  have f: "float_of_int 2 = Inr (Fin 2)"
    using half_step_exact(1) [OF s] by simp
  have n: "py_add (Fin (- 20)) (py_mul (Fin 2) (Fin 0.5)) = Fin (- 19)"
    using half_step_exact(2) [OF s] by simp
  have g: "get_volume (rejecting_avr ''Out of range'') (calls w0) = Inr (Fin (- 20))"
    by (simp add: rejecting_avr_def sample_avr_def)
  have r: "set_volume (rejecting_avr ''Out of range'') h y =
      Inl (ResponseException ''Out of range'')" for h y
    by (simp add: rejecting_avr_def)
  have a: "up (rejecting_avr ''Out of range'') None w0 =
     (Inr (), \<lparr>calls = [GetVolume, SetVolume (Fin (- 19))],
               out = [(Stdout, Red, [PStr ''New volume must be out of range.''])]\<rparr>)"
    unfolding up_def points_argument_def option.case adjust_volume_run [OF g f] n r
    by (simp add: w0_def)
  have h: "get_volume sample_avr (calls w0) = Inr (Fin (- 20))"
    by (simp add: sample_avr_def)
  have big: "(2 :: int) ^ 1024 \<le> \<bar>10 ^ 400\<bar>"
    by simp
  have b: "up sample_avr (Some (10 ^ 400)) w0 =
     (Inl (OtherException ''OverflowError''), \<lparr>calls = [GetVolume], out = []\<rparr>)"
    unfolding up_def points_argument_def option.case adjust_volume_overflow [OF h big]
    by (simp add: w0_def)
  from a b show ?thesis ..
qed

text \<open>
  C2, amended. Let \<open>n\<close> be the count, 2 when the argument is left out, and let it
  convert to the float \<open>x\<close>. With the receiver at level \<open>v\<close>, \<^verbatim>\<open>up\<close> sets the float sum
  \<open>v + x * 0.5\<close> and \<^verbatim>\<open>down\<close> the float difference \<open>v - x * 0.5\<close>. When the receiver
  accepts, the new level is the one line printed; when it rejects with a
  \<^verbatim>\<open>ResponseException\<close>, the out-of-range line is printed instead; the command ends
  normally in both cases. For a level \<open>k / 2\<close> and a count \<open>n\<close> with \<open>k\<close>, \<open>n\<close> below
  \<open>2\<^sup>5\<^sup>2\<close> in magnitude, the levels set are exactly \<open>k / 2 + 0.5 n\<close> and
  \<open>k / 2 - 0.5 n\<close>. The instance at \<open>-20.0\<close> with no argument, which sets and prints
  \<open>-19.0\<close>, follows below.
\<close>

theorem up_down_half_steps:
  assumes "get_volume avr (calls w) = Inr v"
    and "n = (case points of None \<Rightarrow> 2 | Some m \<Rightarrow> m)"
    and "float_of_int n = Inr x"
  shows "calls (snd (up avr points w)) =
          calls w @ [GetVolume, SetVolume (py_add v (py_mul x (Fin 0.5)))]
    \<and> calls (snd (down avr points w)) =
          calls w @ [GetVolume, SetVolume (py_sub v (py_mul x (Fin 0.5)))]
    \<and> (set_volume avr (calls w @ [GetVolume]) (py_add v (py_mul x (Fin 0.5))) = Inr () \<longrightarrow>
          fst (up avr points w) = Inr ()
          \<and> out (snd (up avr points w)) =
              out w @ [(Stdout, Plain, [PFloat (py_add v (py_mul x (Fin 0.5)))])])
    \<and> (set_volume avr (calls w @ [GetVolume]) (py_sub v (py_mul x (Fin 0.5))) = Inr () \<longrightarrow>
          fst (down avr points w) = Inr ()
          \<and> out (snd (down avr points w)) =
              out w @ [(Stdout, Plain, [PFloat (py_sub v (py_mul x (Fin 0.5)))])])
    \<and> (\<forall>msg. set_volume avr (calls w @ [GetVolume]) (py_add v (py_mul x (Fin 0.5)))
                = Inl (ResponseException msg) \<longrightarrow>
          fst (up avr points w) = Inr ()
          \<and> out (snd (up avr points w)) =
              out w @ [(Stdout, Red, [PStr ''New volume must be out of range.''])])
    \<and> (\<forall>msg. set_volume avr (calls w @ [GetVolume]) (py_sub v (py_mul x (Fin 0.5)))
                = Inl (ResponseException msg) \<longrightarrow>
          fst (down avr points w) = Inr ()
          \<and> out (snd (down avr points w)) =
              out w @ [(Stdout, Red, [PStr ''New volume must be out of range.''])])
    \<and> (\<forall>k. v = Fin (of_int k / 2) \<and> \<bar>k\<bar> < 2 ^ 52 \<and> \<bar>n\<bar> < 2 ^ 52 \<longrightarrow>
          x = Fin (of_int n)
          \<and> py_add v (py_mul x (Fin 0.5)) = Fin (of_int k / 2 + 0.5 * of_int n)
          \<and> py_sub v (py_mul x (Fin 0.5)) = Fin (of_int k / 2 - 0.5 * of_int n))"
proof -
  have u: "up avr points = adjust_volume avr n py_add"
    and d: "down avr points = adjust_volume avr n py_sub"
    by (simp_all add: up_def down_def points_argument_def assms(2))
  note r = adjust_volume_run [OF assms(1,3)]
  have 1: "calls (snd (up avr points w)) =
          calls w @ [GetVolume, SetVolume (py_add v (py_mul x (Fin 0.5)))]"
    by (simp add: u r split: sum.splits exn.splits)
  have 2: "calls (snd (down avr points w)) =
          calls w @ [GetVolume, SetVolume (py_sub v (py_mul x (Fin 0.5)))]"
    by (simp add: d r split: sum.splits exn.splits)
  have 3: "fst (up avr points w) = Inr ()
          \<and> out (snd (up avr points w)) =
              out w @ [(Stdout, Plain, [PFloat (py_add v (py_mul x (Fin 0.5)))])]"
    if "set_volume avr (calls w @ [GetVolume]) (py_add v (py_mul x (Fin 0.5))) = Inr ()"
    using that by (simp add: u r)
  have 4: "fst (down avr points w) = Inr ()
          \<and> out (snd (down avr points w)) =
              out w @ [(Stdout, Plain, [PFloat (py_sub v (py_mul x (Fin 0.5)))])]"
    if "set_volume avr (calls w @ [GetVolume]) (py_sub v (py_mul x (Fin 0.5))) = Inr ()"
    using that by (simp add: d r)
  have 5: "fst (up avr points w) = Inr ()
          \<and> out (snd (up avr points w)) =
              out w @ [(Stdout, Red, [PStr ''New volume must be out of range.''])]"
    if "set_volume avr (calls w @ [GetVolume]) (py_add v (py_mul x (Fin 0.5)))
                = Inl (ResponseException msg)" for msg
    using that by (simp add: u r)
  have 6: "fst (down avr points w) = Inr ()
          \<and> out (snd (down avr points w)) =
              out w @ [(Stdout, Red, [PStr ''New volume must be out of range.''])]"
    if "set_volume avr (calls w @ [GetVolume]) (py_sub v (py_mul x (Fin 0.5)))
                = Inl (ResponseException msg)" for msg
    using that by (simp add: d r)
  have 7: "x = Fin (of_int n)
          \<and> py_add v (py_mul x (Fin 0.5)) = Fin (of_int k / 2 + 0.5 * of_int n)
          \<and> py_sub v (py_mul x (Fin 0.5)) = Fin (of_int k / 2 - 0.5 * of_int n)"
    if "v = Fin (of_int k / 2)" and "\<bar>k\<bar> < 2 ^ 52" and "\<bar>n\<bar> < 2 ^ 52" for k
  proof -
    note e = half_step_exact [OF that(3,2)]
    from e(1) assms(3) have "x = Fin (of_int n)" by simp
    with e(2,3) that(1) show ?thesis by simp
  qed
  from 1 2 3 4 5 6 7 show ?thesis by blast
qed

theorem up_down_half_steps_witness:
  "get_volume sample_avr (calls w0) = Inr (Fin (- 20))
   \<and> (2 :: int) = (case None of None \<Rightarrow> 2 | Some m \<Rightarrow> m)
   \<and> float_of_int 2 = Inr (Fin 2)
   \<and> Fin (- 20) = Fin (of_int (- 40) / 2) \<and> \<bar>- 40 :: int\<bar> < 2 ^ 52 \<and> \<bar>2 :: int\<bar> < 2 ^ 52
   \<and> set_volume sample_avr (calls w0 @ [GetVolume]) (Fin (- 19)) = Inr ()
   \<and> calls (snd (up sample_avr None w0)) = [GetVolume, SetVolume (Fin (- 19))]
   \<and> out (snd (up sample_avr None w0)) = [(Stdout, Plain, [PFloat (Fin (- 19))])]
   \<and> calls (snd (down sample_avr None w0)) = [GetVolume, SetVolume (Fin (- 21))]
   \<and> set_volume (rejecting_avr ''Out of range'') (calls w0 @ [GetVolume]) (Fin (- 21))
        = Inl (ResponseException ''Out of range'')
   \<and> out (snd (down (rejecting_avr ''Out of range'') None w0)) =
        [(Stdout, Red, [PStr ''New volume must be out of range.''])]"
proof -
  have g: "get_volume sample_avr (calls w0) = Inr (Fin (- 20))"
    by (simp add: sample_avr_def)
  have g': "get_volume (rejecting_avr ''Out of range'') (calls w0) = Inr (Fin (- 20))"
    by (simp add: rejecting_avr_def sample_avr_def)
  have e: "(2 :: int) = (case None of None \<Rightarrow> 2 | Some m \<Rightarrow> m)"
    by simp
  have s: "\<bar>2 :: int\<bar> < 2 ^ 52" "\<bar>- 40 :: int\<bar> < 2 ^ 52"
    by simp_all
  have f: "float_of_int 2 = Inr (Fin 2)"
    using half_step_exact(1) [OF s] by simp
  have k: "Fin (- 20) = Fin (of_int (- 40) / 2)"
    by simp
  have acc: "set_volume sample_avr h y = Inr ()" for h y
    by (simp add: sample_avr_def)
  have rej: "set_volume (rejecting_avr ''Out of range'') h y =
      Inl (ResponseException ''Out of range'')" for h y
    by (simp add: rejecting_avr_def)
  have x: "py_add (Fin (- 20)) (py_mul (Fin 2) (Fin 0.5)) = Fin (- 19)"
      "py_sub (Fin (- 20)) (py_mul (Fin 2) (Fin 0.5)) = Fin (- 21)"
    using half_step_exact(2,3) [OF s] by simp_all
  note t = up_down_half_steps [OF g e f, unfolded x]
  note t' = up_down_half_steps [OF g' e f, unfolded x]
  have u1: "calls (snd (up sample_avr None w0)) = [GetVolume, SetVolume (Fin (- 19))]"
    using t [THEN conjunct1] by (simp add: w0_def)
  have u2: "out (snd (up sample_avr None w0)) = [(Stdout, Plain, [PFloat (Fin (- 19))])]"
    using t [THEN conjunct2, THEN conjunct2, THEN conjunct1] acc by (simp add: w0_def)
  have u3: "calls (snd (down sample_avr None w0)) = [GetVolume, SetVolume (Fin (- 21))]"
    using t [THEN conjunct2, THEN conjunct1] by (simp add: w0_def)
  have d: "out (snd (down (rejecting_avr ''Out of range'') None w0)) =
        [(Stdout, Red, [PStr ''New volume must be out of range.''])]"
    using t' [THEN conjunct2, THEN conjunct2, THEN conjunct2, THEN conjunct2, THEN conjunct2,
        THEN conjunct1, rule_format, OF rej]
    by (simp add: w0_def)
  show ?thesis
    by (intro conjI) (rule g e f k s acc rej u1 u2 u3 d)+
qed

text \<open>
  C10, as stated, fails for counts that do not fit a float: \<^verbatim>\<open>down\<close> with \<open>-10\<^sup>4\<^sup>0\<^sup>0\<close> and
  \<^verbatim>\<open>up\<close> with \<open>2\<^sup>1\<^sup>0\<^sup>2\<^sup>4\<close> read the level, raise \<^verbatim>\<open>OverflowError\<close> and set nothing.
\<close>

theorem huge_points_send_nothing:
  "down sample_avr (Some (- (10 ^ 400))) w0 =
     (Inl (OtherException ''OverflowError''), \<lparr>calls = [GetVolume], out = []\<rparr>)
   \<and> up sample_avr (Some (2 ^ 1024)) w0 =
     (Inl (OtherException ''OverflowError''), \<lparr>calls = [GetVolume], out = []\<rparr>)"
proof -
  have h: "get_volume sample_avr (calls w0) = Inr (Fin (- 20))"
    by (simp add: sample_avr_def)
  have big: "(2 :: int) ^ 1024 \<le> \<bar>- (10 ^ 400)\<bar>" "(2 :: int) ^ 1024 \<le> \<bar>2 ^ 1024\<bar>"
    by simp_all
  have a: "down sample_avr (Some (- (10 ^ 400))) w0 =
     (Inl (OtherException ''OverflowError''), \<lparr>calls = [GetVolume], out = []\<rparr>)"
    unfolding down_def points_argument_def option.case adjust_volume_overflow [OF h big(1)]
    by (simp add: w0_def)
  have b: "up sample_avr (Some (2 ^ 1024)) w0 =
     (Inl (OtherException ''OverflowError''), \<lparr>calls = [GetVolume], out = []\<rparr>)"
    unfolding up_def points_argument_def option.case adjust_volume_overflow [OF h big(2)]
    by (simp add: w0_def)
  from a b show ?thesis ..
qed

text \<open>
  C10, amended. The sign of the count is not checked: \<^verbatim>\<open>up\<close> with \<open>-n\<close> is the same
  command as \<^verbatim>\<open>down\<close> with \<open>n\<close> and the other way round, for every integer \<open>n\<close>. For
  every \<open>n\<close> that converts to a float \<open>x\<close>, also zero and the negative ones, \<^verbatim>\<open>up\<close> sets
  the float sum \<open>v + x * 0.5\<close> and \<^verbatim>\<open>down\<close> the float difference \<open>v - x * 0.5\<close>; these
  are exactly \<open>v + 0.5 n\<close> and \<open>v - 0.5 n\<close> for a level \<open>v = k / 2\<close> with \<open>k\<close>, \<open>n\<close> below
  \<open>2\<^sup>5\<^sup>2\<close> in magnitude. A count of magnitude \<open>2\<^sup>1\<^sup>0\<^sup>2\<^sup>4\<close> or more does not convert:
  the command ends with \<^verbatim>\<open>OverflowError\<close> after the read.
\<close>

theorem points_sign_not_checked:
  "up avr (Some (- n)) = down avr (Some n)
   \<and> down avr (Some (- n)) = up avr (Some n)
   \<and> (get_volume avr (calls w) = Inr v \<and> float_of_int n = Inr x \<longrightarrow>
        calls (snd (up avr (Some n) w)) =
          calls w @ [GetVolume, SetVolume (py_add v (py_mul x (Fin 0.5)))]
      \<and> calls (snd (down avr (Some n) w)) =
          calls w @ [GetVolume, SetVolume (py_sub v (py_mul x (Fin 0.5)))])
   \<and> (get_volume avr (calls w) = Inr (Fin (of_int k / 2)) \<and> \<bar>k\<bar> < 2 ^ 52 \<and> \<bar>n\<bar> < 2 ^ 52 \<longrightarrow>
        calls (snd (up avr (Some n) w)) =
          calls w @ [GetVolume, SetVolume (Fin (of_int k / 2 + 0.5 * of_int n))]
      \<and> calls (snd (down avr (Some n) w)) =
          calls w @ [GetVolume, SetVolume (Fin (of_int k / 2 - 0.5 * of_int n))])
   \<and> (get_volume avr (calls w) = Inr v \<and> 2 ^ 1024 \<le> \<bar>n\<bar> \<longrightarrow>
        up avr (Some n) w =
          (Inl (OtherException ''OverflowError''), w\<lparr>calls := calls w @ [GetVolume]\<rparr>)
      \<and> down avr (Some n) w =
          (Inl (OtherException ''OverflowError''), w\<lparr>calls := calls w @ [GetVolume]\<rparr>))"
proof -
  have u: "up avr (Some m) = adjust_volume avr m py_add"
    and d: "down avr (Some m) = adjust_volume avr m py_sub" for m
    by (simp_all add: up_def down_def points_argument_def)
  have 1: "up avr (Some (- n)) = down avr (Some n)"
    and 2: "down avr (Some (- n)) = up avr (Some n)"
    by (simp_all only: u d adjust_volume_minus)
  have 3: "calls (snd (up avr (Some n) w)) =
          calls w @ [GetVolume, SetVolume (py_add v (py_mul x (Fin 0.5)))]
      \<and> calls (snd (down avr (Some n) w)) =
          calls w @ [GetVolume, SetVolume (py_sub v (py_mul x (Fin 0.5)))]"
    if "get_volume avr (calls w) = Inr v" and "float_of_int n = Inr x" for v x
    by (simp add: u d adjust_volume_run [OF that] split: sum.splits exn.splits)
  have 4: "calls (snd (up avr (Some n) w)) =
          calls w @ [GetVolume, SetVolume (Fin (of_int k / 2 + 0.5 * of_int n))]
      \<and> calls (snd (down avr (Some n) w)) =
          calls w @ [GetVolume, SetVolume (Fin (of_int k / 2 - 0.5 * of_int n))]"
    if "get_volume avr (calls w) = Inr (Fin (of_int k / 2))"
      and "\<bar>k\<bar> < 2 ^ 52" and "\<bar>n\<bar> < 2 ^ 52"
    using 3 [OF that(1) half_step_exact(1) [OF that(3,2)]]
    unfolding half_step_exact(2,3) [OF that(3,2)] .
  have 5: "up avr (Some n) w =
          (Inl (OtherException ''OverflowError''), w\<lparr>calls := calls w @ [GetVolume]\<rparr>)
      \<and> down avr (Some n) w =
          (Inl (OtherException ''OverflowError''), w\<lparr>calls := calls w @ [GetVolume]\<rparr>)"
    if "get_volume avr (calls w) = Inr v" and "2 ^ 1024 \<le> \<bar>n\<bar>" for v
    by (simp add: u d adjust_volume_overflow [OF that])
  from 1 2 3 4 5 show ?thesis by blast
qed

theorem points_sign_not_checked_witness:
  "get_volume sample_avr (calls w0) = Inr (Fin (of_int (- 40) / 2))
   \<and> \<bar>- 40 :: int\<bar> < 2 ^ 52 \<and> \<bar>- 3 :: int\<bar> < 2 ^ 52
   \<and> float_of_int (- 3) = Inr (Fin (- 3))
   \<and> (2 :: int) ^ 1024 \<le> \<bar>- (2 ^ 1024)\<bar>
   \<and> calls (snd (up sample_avr (Some (- 3)) w0)) = [GetVolume, SetVolume (Fin (- 21.5))]
   \<and> calls (snd (down sample_avr (Some (- 3)) w0)) = [GetVolume, SetVolume (Fin (- 18.5))]
   \<and> up sample_avr (Some (- 3)) w0 = down sample_avr (Some 3) w0
   \<and> calls (snd (down sample_avr (Some (- (2 ^ 1024))) w0)) = [GetVolume]"
proof -
  have g: "get_volume sample_avr (calls w0) = Inr (Fin (of_int (- 40) / 2))"
    by (simp add: sample_avr_def)
  have s: "\<bar>- 40 :: int\<bar> < 2 ^ 52" "\<bar>- 3 :: int\<bar> < 2 ^ 52"
    by simp_all
  have f: "float_of_int (- 3) = Inr (Fin (- 3))"
    using half_step_exact(1) [OF s(2,1)] by simp
  have b: "(2 :: int) ^ 1024 \<le> \<bar>- (2 ^ 1024)\<bar>"
    by simp
  have c: "calls (snd (up sample_avr (Some (- 3)) w0)) = [GetVolume, SetVolume (Fin (- 21.5))]
      \<and> calls (snd (down sample_avr (Some (- 3)) w0)) = [GetVolume, SetVolume (Fin (- 18.5))]"
    using points_sign_not_checked [where avr = sample_avr and n = "- 3" and w = w0 and k = "- 40",
        THEN conjunct2, THEN conjunct2, THEN conjunct2, THEN conjunct1, rule_format,
        OF conjI [OF g conjI [OF s]]]
    by (simp add: w0_def)
  have i: "up sample_avr (Some (- 3)) w0 = down sample_avr (Some 3) w0"
    using points_sign_not_checked [where avr = sample_avr and n = 3, THEN conjunct1]
    by (rule fun_cong)
  have o: "calls (snd (down sample_avr (Some (- (2 ^ 1024))) w0)) = [GetVolume]"
    using points_sign_not_checked [where avr = sample_avr and n = "- (2 ^ 1024)" and w = w0,
        THEN conjunct2, THEN conjunct2, THEN conjunct2, THEN conjunct2, rule_format,
        OF conjI [OF g b], THEN conjunct2]
    by (simp add: w0_def)
  show ?thesis
    by (intro conjI) (rule g s f b c [THEN conjunct1] c [THEN conjunct2] i o)+
qed

subsection \<open>fade\<close>

text \<open>
  A target that is not below zero is answered by the usage line. A finite target below
  zero, with a delay given, leads to exactly one \<^verbatim>\<open>volume_fade\<close> with the truncated
  target and that delay.
\<close>

lemma fade_not_negative:
  assumes "\<not> lt_zero x"
  shows "fade avr (Some x) delay w = (Inr (), w\<lparr>out := out w @ [fade_usage]\<rparr>)"
  using assms by (simp add: fade_def io_defs)

lemma fade_with_delay:
  assumes "lt_zero x" and "py_int x = Inr k"
  shows "calls (snd (fade avr (Some x) (Some d) w)) = calls w @ [VolumeFade k d]"
  using assms lt_zero_truthy [OF assms(1)]
  by (simp add: fade_def fade_rejected_def io_defs split: sum.splits exn.splits)

text \<open>
  C3. With a target below zero and no delay the fade is to be issued with the delay
  \<open>0.5\<close>. The handler receives \<^verbatim>\<open>delay=None\<close> from click, prints the progress line with
  \<^verbatim>\<open>None\<close> in it, and \<^verbatim>\<open>float(delay)\<close> raises a \<^verbatim>\<open>TypeError\<close> that
  \<^verbatim>\<open>except ResponseException\<close> does not catch: nothing is sent to the receiver.
\<close>

theorem fade_without_delay_raises:
  "lt_zero (Fin (- 30))
   \<and> fade sample_avr (Some (Fin (- 30))) None w0 =
       (Inl (OtherException ''TypeError''),
        \<lparr>calls = [], out = [fade_progress (Fin (- 30)) None]\<rparr>)"
  by (simp add: fade_def fade_rejected_def truthy_float_def io_defs w0_def)

subsection \<open>mute\<close>

text \<open>
  C4. A token that is neither on nor off is to be answered by a fixed message, with no
  change of the receiver. The handler has no such test: \<^verbatim>\<open>mute banana\<close> sets mute to
  \<^verbatim>\<open>'banana' == 'on'\<close>, that is to false, and prints the token.
\<close>

theorem mute_unknown_token_unmutes:
  "lower ''banana'' \<notin> set [''on'', ''off'']
   \<and> mute sample_avr (Some ''banana'') w0 =
       (Inr (), \<lparr>calls = [GetBasicStatus, SetMute False],
                 out = [(Stdout, Plain, [PStr ''banana''])]\<rparr>)"
  by (simp add: mute_def lower_def lower_char_def io_defs sample_avr_def w0_def)

subsection \<open>Rejections by the receiver on the volume paths\<close>

text \<open>
  C5, as stated, fails for \<^verbatim>\<open>fade\<close>: a rejection whose text does not contain
  \<^verbatim>\<open>Volume\<close> is not absorbed silently, its text is printed by \<^verbatim>\<open>print(e)\<close>.
\<close>

theorem fade_prints_rejection_text:
  "\<not> contains ''Volume'' ''Bad gateway''
   \<and> fade (rejecting_avr ''Bad gateway'') (Some (Fin (- 30))) (Some (Fin 1)) w0 =
       (Inr (), \<lparr>calls = [VolumeFade (- 30) (Fin 1)],
                 out = [fade_progress (Fin (- 30)) (Some (Fin 1)),
                        (Stdout, Plain, [PStr ''Bad gateway''])]\<rparr>)"
  by (simp add: fade_def fade_rejected_def truthy_float_def io_defs w0_def
      rejecting_avr_def sample_avr_def starts_with_def)

text \<open>
  C5, amended. When the receiver rejects the set of \<^verbatim>\<open>volume\<close> or the fade of \<^verbatim>\<open>fade\<close>
  with a \<^verbatim>\<open>ResponseException\<close>, the command ends normally, and the fixed line
  \<open>step_message\<close> is written exactly when the text of the rejection contains
  \<^verbatim>\<open>Volume\<close>. Without that word \<^verbatim>\<open>volume\<close> writes nothing; \<^verbatim>\<open>fade\<close> has written its
  progress line and writes the text of the rejection in both cases.
\<close>

theorem rejection_rendering:
  "(lt_zero x \<and> set_volume avr (calls w) x = Inl (ResponseException msg) \<longrightarrow>
      volume avr (Some x) w =
        (Inr (), w\<lparr>calls := calls w @ [SetVolume x],
                    out := out w @ (if contains ''Volume'' msg then [step_message] else [])\<rparr>))
   \<and> (lt_zero x \<and> py_int x = Inr k
        \<and> volume_fade avr (calls w) k d = Inl (ResponseException msg) \<longrightarrow>
      fade avr (Some x) (Some d) w =
        (Inr (), w\<lparr>calls := calls w @ [VolumeFade k d],
                    out := out w @ [fade_progress x (Some d), (Stdout, Plain, [PStr msg])]
                           @ (if contains ''Volume'' msg then [step_message] else [])\<rparr>))"
proof -
  have v: "volume avr (Some x) w =
        (Inr (), w\<lparr>calls := calls w @ [SetVolume x],
                    out := out w @ (if contains ''Volume'' msg then [step_message] else [])\<rparr>)"
    if "lt_zero x" and "set_volume avr (calls w) x = Inl (ResponseException msg)"
    using that lt_zero_truthy [OF that(1)]
    by (simp add: volume_def volume_rejected_def io_defs)
  have f: "fade avr (Some x) (Some d) w =
        (Inr (), w\<lparr>calls := calls w @ [VolumeFade k d],
                    out := out w @ [fade_progress x (Some d), (Stdout, Plain, [PStr msg])]
                           @ (if contains ''Volume'' msg then [step_message] else [])\<rparr>)"
    if "lt_zero x" and "py_int x = Inr k"
      and "volume_fade avr (calls w) k d = Inl (ResponseException msg)"
    using that lt_zero_truthy [OF that(1)]
    by (simp add: fade_def fade_rejected_def io_defs)
  from v f show ?thesis by blast
qed

theorem rejection_rendering_witness:
  "lt_zero (Fin (- 30.5)) \<and> py_int (Fin (- 30.5)) = Inr (- 30)
   \<and> set_volume (rejecting_avr ''Volume out of range'') (calls w0) (Fin (- 30.5))
       = Inl (ResponseException ''Volume out of range'')
   \<and> volume_fade (rejecting_avr ''Bad gateway'') (calls w0) (- 30) (Fin 1)
       = Inl (ResponseException ''Bad gateway'')
   \<and> volume (rejecting_avr ''Volume out of range'') (Some (Fin (- 30.5))) w0 =
        (Inr (), \<lparr>calls = [SetVolume (Fin (- 30.5))], out = [step_message]\<rparr>)
   \<and> fade (rejecting_avr ''Bad gateway'') (Some (Fin (- 30.5))) (Some (Fin 1)) w0 =
        (Inr (), \<lparr>calls = [VolumeFade (- 30) (Fin 1)],
                  out = [fade_progress (Fin (- 30.5)) (Some (Fin 1)),
                         (Stdout, Plain, [PStr ''Bad gateway''])]\<rparr>)"
proof -
  have a: "lt_zero (Fin (- 30.5))" by simp
  have b: "py_int (Fin (- 30.5)) = Inr (- 30)" by simp
  have c: "set_volume (rejecting_avr ''Volume out of range'') (calls w0) (Fin (- 30.5))
       = Inl (ResponseException ''Volume out of range'')"
    by (simp add: rejecting_avr_def)
  have d: "volume_fade (rejecting_avr ''Bad gateway'') (calls w0) (- 30) (Fin 1)
       = Inl (ResponseException ''Bad gateway'')"
    by (simp add: rejecting_avr_def)
  have e: "contains ''Volume'' ''Volume out of range''"
    by (simp add: starts_with_def)
  have f: "\<not> contains ''Volume'' ''Bad gateway''"
    by (simp add: starts_with_def)
  from rejection_rendering [of "Fin (- 30.5)" "rejecting_avr ''Volume out of range''" w0
      "''Volume out of range''" "- 30" "Fin 1"] a c e
  have g: "volume (rejecting_avr ''Volume out of range'') (Some (Fin (- 30.5))) w0 =
        (Inr (), \<lparr>calls = [SetVolume (Fin (- 30.5))], out = [step_message]\<rparr>)"
    by (simp add: w0_def)
  from rejection_rendering [of "Fin (- 30.5)" "rejecting_avr ''Bad gateway''" w0
      "''Bad gateway''" "- 30" "Fin 1"] a b d f
  have h: "fade (rejecting_avr ''Bad gateway'') (Some (Fin (- 30.5))) (Some (Fin 1)) w0 =
        (Inr (), \<lparr>calls = [VolumeFade (- 30) (Fin 1)],
                  out = [fade_progress (Fin (- 30.5)) (Some (Fin 1)),
                         (Stdout, Plain, [PStr ''Bad gateway''])]\<rparr>)"
    by (simp add: w0_def)
  from a b c d g h show ?thesis by blast
qed

subsection \<open>Availability gates\<close>

text \<open>
  C6. Whatever the argument, when the receiver answers that playback is not supported,
  \<^verbatim>\<open>playback\<close> prints \<open>playback_unavailable\<close> and does nothing else: the question is its
  only operation on the receiver. When the menu status has \<^verbatim>\<open>ready\<close> false, \<^verbatim>\<open>menu\<close>
  prints \<open>menu_unavailable\<close> and the read of the status is its only operation.
\<close>

theorem gates_stop_commands:
  "(is_playback_supported avr (calls w) = Inr False \<longrightarrow>
      playback avr arg w =
        (Inr (), w\<lparr>calls := calls w @ [IsPlaybackSupported],
                    out := out w @ [playback_unavailable]\<rparr>))
   \<and> (menu_status avr (calls w) = Inr st \<and> \<not> ready st \<longrightarrow>
      menu avr arg w =
        (Inr (), w\<lparr>calls := calls w @ [GetMenuStatus],
                    out := out w @ [menu_unavailable]\<rparr>))"
  by (simp add: playback_def menu_def io_defs)

theorem gates_stop_commands_witness:
  "is_playback_supported idle_avr (calls w0) = Inr False
   \<and> menu_status idle_avr (calls w0) = Inr (sample_menu\<lparr>ready := False\<rparr>)
   \<and> \<not> ready (sample_menu\<lparr>ready := False\<rparr>)
   \<and> playback idle_avr (Some ''play'') w0 =
        (Inr (), \<lparr>calls = [IsPlaybackSupported], out = [playback_unavailable]\<rparr>)
   \<and> menu idle_avr (Some ''select'') w0 =
        (Inr (), \<lparr>calls = [GetMenuStatus], out = [menu_unavailable]\<rparr>)"
proof -
  have a: "is_playback_supported idle_avr (calls w0) = Inr False"
    by (simp add: idle_avr_def)
  have b: "menu_status idle_avr (calls w0) = Inr (sample_menu\<lparr>ready := False\<rparr>)"
    by (simp add: idle_avr_def)
  have c: "\<not> ready (sample_menu\<lparr>ready := False\<rparr>)" by simp
  from gates_stop_commands [of idle_avr w0 "Some ''play''" "sample_menu\<lparr>ready := False\<rparr>"] a
  have d: "playback idle_avr (Some ''play'') w0 =
        (Inr (), \<lparr>calls = [IsPlaybackSupported], out = [playback_unavailable]\<rparr>)"
    by (simp add: w0_def)
  from gates_stop_commands [of idle_avr w0 "Some ''select''" "sample_menu\<lparr>ready := False\<rparr>"]
    b c
  have e: "menu idle_avr (Some ''select'') w0 =
        (Inr (), \<lparr>calls = [GetMenuStatus], out = [menu_unavailable]\<rparr>)"
    by (simp add: w0_def)
  from a b c d e show ?thesis by blast
qed

subsection \<open>output\<close>

text \<open>
  C7, as stated, fails for a valid state with an unknown name: the test
  \<^verbatim>\<open>output in avr.outputs\<close> reads the outputs from the receiver, so one operation is
  issued.
\<close>

theorem output_unknown_name_reads_outputs:
  "''on'' \<in> set [''on'', ''off''] \<and> outputs sample_avr [] = Inr [''zoneB'' \<mapsto> False]
   \<and> ''zoneX'' \<notin> dom [''zoneB'' \<mapsto> False]
   \<and> calls (snd (output_cmd sample_avr ''zoneX'' ''on'' w0)) = [GetOutputs]"
  by (simp add: output_cmd_def sample_avr_def w0_def io_defs)

text \<open>
  C7, amended. A state other than the literal \<^verbatim>\<open>on\<close> or \<^verbatim>\<open>off\<close> is answered by the
  red line and the receiver is not touched at all. With a valid state and a name that is
  not a key of the outputs, the plain not-valid line is printed; the read of the outputs
  is the only operation and nothing is enabled. With both valid, the confirmation naming
  the output and the state is printed and \<^verbatim>\<open>enable_output\<close> is called once, with true
  for \<^verbatim>\<open>on\<close> and false for \<^verbatim>\<open>off\<close>.
\<close>

theorem output_validation:
  "(state \<notin> set [''on'', ''off''] \<longrightarrow>
      output_cmd avr output state w =
        (Inr (), w\<lparr>out := out w @ [(Stdout, Red, [PStr ''State must be on or off''])]\<rparr>))
   \<and> (state \<in> set [''on'', ''off''] \<and> outputs avr (calls w) = Inr outs
        \<and> output \<notin> dom outs \<longrightarrow>
      output_cmd avr output state w =
        (Inr (), w\<lparr>calls := calls w @ [GetOutputs],
                    out := out w @ [(Stdout, Plain,
                      [PStr ''That's not a valid output. Run `rxvc outputs' toget a list of them.''])]\<rparr>))
   \<and> (state \<in> set [''on'', ''off''] \<and> outputs avr (calls w) = Inr outs
        \<and> output \<in> dom outs \<longrightarrow>
      calls (snd (output_cmd avr output state w)) =
        calls w @ [GetOutputs, EnableOutput output (state = ''on'')]
      \<and> out (snd (output_cmd avr output state w)) =
        out w @ [(Stdout, Plain,
                  [PStr (''Setting receiver output '' @ output @ '' to '' @ state)])])"
proof -
  have a: "output_cmd avr output state w =
        (Inr (), w\<lparr>out := out w @ [(Stdout, Red, [PStr ''State must be on or off''])]\<rparr>)"
    if "state \<notin> set [''on'', ''off'']"
    using that by (simp add: output_cmd_def state_message_def io_defs)
  have b: "output_cmd avr output state w =
        (Inr (), w\<lparr>calls := calls w @ [GetOutputs],
                    out := out w @ [(Stdout, Plain,
                      [PStr ''That's not a valid output. Run `rxvc outputs' toget a list of them.''])]\<rparr>)"
    if "state \<in> set [''on'', ''off'']" and "outputs avr (calls w) = Inr outs"
      and "output \<notin> dom outs"
    using that by (auto simp add: output_cmd_def output_invalid_def io_defs Let_def)
  have c: "calls (snd (output_cmd avr output state w)) =
        calls w @ [GetOutputs, EnableOutput output (state = ''on'')]
      \<and> out (snd (output_cmd avr output state w)) =
        out w @ [(Stdout, Plain,
                  [PStr (''Setting receiver output '' @ output @ '' to '' @ state)])]"
    if "state \<in> set [''on'', ''off'']" and "outputs avr (calls w) = Inr outs"
      and "output \<in> dom outs"
    using that
    by (auto simp add: output_cmd_def output_confirmation_def io_defs Let_def
        split: sum.splits)
  from a b c show ?thesis by blast
qed

theorem output_validation_witness:
  "''On'' \<notin> set [''on'', ''off''] \<and> ''on'' \<in> set [''on'', ''off'']
   \<and> outputs sample_avr (calls w0) = Inr [''zoneB'' \<mapsto> False]
   \<and> ''zoneX'' \<notin> dom [''zoneB'' \<mapsto> False] \<and> ''zoneB'' \<in> dom [''zoneB'' \<mapsto> False]
   \<and> output_cmd sample_avr ''zoneB'' ''On'' w0 =
        (Inr (), \<lparr>calls = [], out = [(Stdout, Red, [PStr ''State must be on or off''])]\<rparr>)
   \<and> output_cmd sample_avr ''zoneX'' ''on'' w0 =
        (Inr (), \<lparr>calls = [GetOutputs],
                  out = [(Stdout, Plain,
                    [PStr ''That's not a valid output. Run `rxvc outputs' toget a list of them.''])]\<rparr>)
   \<and> calls (snd (output_cmd sample_avr ''zoneB'' ''on'' w0)) =
        [GetOutputs, EnableOutput ''zoneB'' True]
   \<and> out (snd (output_cmd sample_avr ''zoneB'' ''on'' w0)) =
        [(Stdout, Plain, [PStr ''Setting receiver output zoneB to on''])]"
proof -
  have a: "''On'' \<notin> set [''on'', ''off'']" by simp
  have b: "''on'' \<in> set [''on'', ''off'']" by simp
  have c: "outputs sample_avr (calls w0) = Inr [''zoneB'' \<mapsto> False]"
    by (simp add: sample_avr_def)
  have d: "''zoneX'' \<notin> dom [''zoneB'' \<mapsto> False]" by simp
  have e: "''zoneB'' \<in> dom [''zoneB'' \<mapsto> False]" by simp
  have f: "output_cmd sample_avr ''zoneB'' ''On'' w0 =
      (Inr (), \<lparr>calls = [], out = [(Stdout, Red, [PStr ''State must be on or off''])]\<rparr>)"
    using output_validation [of "''On''" sample_avr "''zoneB''" w0,
        THEN conjunct1, rule_format, OF a]
    by (simp add: w0_def)
  have g: "output_cmd sample_avr ''zoneX'' ''on'' w0 =
        (Inr (), \<lparr>calls = [GetOutputs],
                  out = [(Stdout, Plain,
                    [PStr ''That's not a valid output. Run `rxvc outputs' toget a list of them.''])]\<rparr>)"
    using output_validation [of "''on''" sample_avr "''zoneX''" w0,
        THEN conjunct2, THEN conjunct1, rule_format, OF conjI [OF b conjI [OF c d]]]
    by (simp add: w0_def)
  have h: "calls (snd (output_cmd sample_avr ''zoneB'' ''on'' w0)) =
        [GetOutputs, EnableOutput ''zoneB'' True]
   \<and> out (snd (output_cmd sample_avr ''zoneB'' ''on'' w0)) =
        [(Stdout, Plain, [PStr ''Setting receiver output zoneB to on''])]"
    using output_validation [of "''on''" sample_avr "''zoneB''" w0,
        THEN conjunct2, THEN conjunct2, rule_format, OF conjI [OF b conjI [OF c e]]]
    by (simp add: w0_def)
  show ?thesis
    by (intro conjI) (rule a b c d e f g h [THEN conjunct1] h [THEN conjunct2])+
qed

subsection \<open>menu\<close>

text \<open>Printing the status: one read, the header, then the items in sorted order.\<close>

lemma print_all_run: "print_all ls w = (Inr (), w\<lparr>out := out w @ ls\<rparr>)"
  by (induction ls arbitrary: w) (simp_all add: io_defs)

lemma show_menu_run:
  "show_menu avr w =
     (case menu_status avr (calls w) of
        Inl e \<Rightarrow> (Inl e, w\<lparr>calls := calls w @ [GetMenuStatus]\<rparr>)
      | Inr st \<Rightarrow>
          (Inr (), w\<lparr>calls := calls w @ [GetMenuStatus],
                      out := out w @ menu_header st # map menu_item (sort (current_list st))\<rparr>))"
  by (simp add: show_menu_def print_all_run io_defs split: sum.splits)

text \<open>Pairs are ordered by their first component first, so the positions come out sorted.\<close>

lemma sorted_positions: "sorted (map fst (sort (xs :: ('k::linorder \<times> string) list)))"
proof -
  have "sorted (sort xs)" by simp
  then have "sorted_wrt (\<lambda>x y. fst x \<le> fst y) (sort xs)"
    by (rule sorted_wrt_mono_rel [rotated]) (auto simp: less_eq_prod_def)
  then show ?thesis by (simp add: sorted_map)
qed

text \<open>The handler on a ready menu, for an unknown token and for each of the six known ones.\<close>

lemma menu_unknown:
  assumes "menu_status avr (calls w) = Inr gate" and "ready gate"
    and "command \<noteq> []"
    and "command \<notin> set [''up'', ''down'', ''left'', ''right'', ''select'', ''return'']"
  shows "menu avr (Some command) w =
      (Inr (), w\<lparr>calls := calls w @ [GetMenuStatus], out := out w @ [menu_invalid]\<rparr>)"
  using assms by (simp add: menu_def io_defs)

lemma io_when_simps: "io_when True m = m" "io_when False m = ret ()"
  by (simp_all add: io_when_def)

lemma seq_ret: "seq (ret ()) n = n"
  by (rule ext) (simp add: seq_def io_bind_def ret_def)

lemma nav_then_show:
  "seq (echo l) (seq (device c op) (show_menu avr)) w =
      (case op (calls w) of
         Inl e \<Rightarrow> (Inl e, w\<lparr>calls := calls w @ [c], out := out w @ [l]\<rparr>)
       | Inr u \<Rightarrow>
          (case menu_status avr (calls w @ [c]) of
             Inl e \<Rightarrow> (Inl e, w\<lparr>calls := calls w @ [c, GetMenuStatus], out := out w @ [l]\<rparr>)
           | Inr st \<Rightarrow>
               (Inr (), w\<lparr>calls := calls w @ [c, GetMenuStatus],
                           out := out w @ [l, menu_header st]
                                  @ map menu_item (sort (current_list st))\<rparr>)))"
  by (simp add: show_menu_run seq_def io_bind_def echo_def device_def split: sum.splits)

lemma menu_up_run:
  assumes "menu_status avr (calls w) = Inr gate" and "ready gate"
  shows "menu avr (Some ''up'') w =
    seq (echo (menu_sending ''up'')) (seq (device MenuUp (menu_up avr)) (show_menu avr))
      (w\<lparr>calls := calls w @ [GetMenuStatus]\<rparr>)"
  using assms
  by (simp add: menu_def io_when_simps seq_ret io_bind_def device_def)

lemma menu_down_run:
  assumes "menu_status avr (calls w) = Inr gate" and "ready gate"
  shows "menu avr (Some ''down'') w =
    seq (echo (menu_sending ''down'')) (seq (device MenuDown (menu_down avr)) (show_menu avr))
      (w\<lparr>calls := calls w @ [GetMenuStatus]\<rparr>)"
  using assms
  by (simp add: menu_def io_when_simps seq_ret io_bind_def device_def)

lemma menu_left_run:
  assumes "menu_status avr (calls w) = Inr gate" and "ready gate"
  shows "menu avr (Some ''left'') w =
    seq (echo (menu_sending ''left'')) (seq (device MenuLeft (menu_left avr)) (show_menu avr))
      (w\<lparr>calls := calls w @ [GetMenuStatus]\<rparr>)"
  using assms
  by (simp add: menu_def io_when_simps seq_ret io_bind_def device_def)

lemma menu_right_run:
  assumes "menu_status avr (calls w) = Inr gate" and "ready gate"
  shows "menu avr (Some ''right'') w =
    seq (echo (menu_sending ''right'')) (seq (device MenuRight (menu_right avr)) (show_menu avr))
      (w\<lparr>calls := calls w @ [GetMenuStatus]\<rparr>)"
  using assms
  by (simp add: menu_def io_when_simps seq_ret io_bind_def device_def)

lemma menu_select_run:
  assumes "menu_status avr (calls w) = Inr gate" and "ready gate"
  shows "menu avr (Some ''select'') w =
    seq (echo (menu_sending ''select'')) (seq (device MenuSel (menu_sel avr)) (show_menu avr))
      (w\<lparr>calls := calls w @ [GetMenuStatus]\<rparr>)"
  using assms
  by (simp add: menu_def io_when_simps seq_ret io_bind_def device_def)

lemma menu_return_run:
  assumes "menu_status avr (calls w) = Inr gate" and "ready gate"
  shows "menu avr (Some ''return'') w =
    seq (echo (menu_sending ''return'')) (seq (device MenuReturn (menu_return avr)) (show_menu avr))
      (w\<lparr>calls := calls w @ [GetMenuStatus]\<rparr>)"
  using assms
  by (simp add: menu_def io_when_simps seq_ret io_bind_def device_def)

lemmas menu_run = menu_up_run menu_down_run menu_left_run menu_right_run
  menu_select_run menu_return_run

text \<open>
  On a ready menu, a token that is not empty and not one of the six is answered by the
  not-valid line, and the status is neither read again nor printed. Each of \<^verbatim>\<open>up\<close>,
  \<^verbatim>\<open>down\<close>, \<^verbatim>\<open>left\<close>, \<^verbatim>\<open>right\<close>, \<^verbatim>\<open>select\<close>, \<^verbatim>\<open>return\<close> issues its own operation and no
  other; if that operation raises, the command ends there; otherwise the status is read
  again and that fresh status is printed, its items in the order of their positions.
\<close>

lemma menu_dispatch:
  assumes "menu_status avr (calls w) = Inr gate" and "ready gate"
  shows "(command \<noteq> []
          \<and> command \<notin> set [''up'', ''down'', ''left'', ''right'', ''select'', ''return''] \<longrightarrow>
        menu avr (Some command) w =
          (Inr (), w\<lparr>calls := calls w @ [GetMenuStatus],
                      out := out w @ [(Stdout, Plain,
                        [PStr ''That's not a valid menu control command. Valid commands include 'up', 'down', 'left', 'right', 'select' and 'return'.''])]\<rparr>))
    \<and> (\<forall>(tok, c, op) \<in> set [(''up'', MenuUp, menu_up avr), (''down'', MenuDown, menu_down avr),
           (''left'', MenuLeft, menu_left avr), (''right'', MenuRight, menu_right avr),
           (''select'', MenuSel, menu_sel avr), (''return'', MenuReturn, menu_return avr)].
         (\<forall>e. op (calls w @ [GetMenuStatus]) = Inl e \<longrightarrow>
            menu avr (Some tok) w =
              (Inl e, w\<lparr>calls := calls w @ [GetMenuStatus, c],
                         out := out w @ [(Stdout, Plain,
                           [PStr (''Sending menu command '' @ tok @ '' to receiver'')])]\<rparr>))
       \<and> (\<forall>st. op (calls w @ [GetMenuStatus]) = Inr ()
              \<and> menu_status avr (calls w @ [GetMenuStatus, c]) = Inr st \<longrightarrow>
            menu avr (Some tok) w =
              (Inr (), w\<lparr>calls := calls w @ [GetMenuStatus, c, GetMenuStatus],
                          out := out w @
                            [(Stdout, Plain,
                              [PStr (''Sending menu command '' @ tok @ '' to receiver'')]),
                             (Stdout, Plain,
                              [PStr (CHR 0x0A # ''Ready: ''), PBool (ready st),
                               PStr (CHR 0x0A # ''Layer: ''), PInt (layer st),
                               PStr (CHR 0x0A # ''Name: '' @ name st @ [CHR 0x0A, CHR 0x0A]
                                     @ ''Total lines: ''),
                               PInt (max_line st), PStr [CHR 0x0A]])]
                            @ map (\<lambda>item. (Stdout, Plain, [PStr (''*  '' @ snd item)]))
                                (sort (current_list st))\<rparr>)
            \<and> sorted (map fst (sort (current_list st)))))"
proof (intro conjI)
  show "command \<noteq> []
          \<and> command \<notin> set [''up'', ''down'', ''left'', ''right'', ''select'', ''return''] \<longrightarrow>
        menu avr (Some command) w =
          (Inr (), w\<lparr>calls := calls w @ [GetMenuStatus],
                      out := out w @ [(Stdout, Plain,
                        [PStr ''That's not a valid menu control command. Valid commands include 'up', 'down', 'left', 'right', 'select' and 'return'.''])]\<rparr>)"
    using menu_unknown [OF assms] unfolding menu_invalid_def by blast
next
  have i: "map menu_item xs = map (\<lambda>item. (Stdout, Plain, [PStr (''*  '' @ snd item)])) xs"
    for xs :: "('a \<times> string) list"
    by (simp add: menu_item_def)
  show "\<forall>(tok, c, op) \<in> set [(''up'', MenuUp, menu_up avr), (''down'', MenuDown, menu_down avr),
           (''left'', MenuLeft, menu_left avr), (''right'', MenuRight, menu_right avr),
           (''select'', MenuSel, menu_sel avr), (''return'', MenuReturn, menu_return avr)].
         (\<forall>e. op (calls w @ [GetMenuStatus]) = Inl e \<longrightarrow>
            menu avr (Some tok) w =
              (Inl e, w\<lparr>calls := calls w @ [GetMenuStatus, c],
                         out := out w @ [(Stdout, Plain,
                           [PStr (''Sending menu command '' @ tok @ '' to receiver'')])]\<rparr>))
       \<and> (\<forall>st. op (calls w @ [GetMenuStatus]) = Inr ()
              \<and> menu_status avr (calls w @ [GetMenuStatus, c]) = Inr st \<longrightarrow>
            menu avr (Some tok) w =
              (Inr (), w\<lparr>calls := calls w @ [GetMenuStatus, c, GetMenuStatus],
                          out := out w @
                            [(Stdout, Plain,
                              [PStr (''Sending menu command '' @ tok @ '' to receiver'')]),
                             (Stdout, Plain,
                              [PStr (CHR 0x0A # ''Ready: ''), PBool (ready st),
                               PStr (CHR 0x0A # ''Layer: ''), PInt (layer st),
                               PStr (CHR 0x0A # ''Name: '' @ name st @ [CHR 0x0A, CHR 0x0A]
                                     @ ''Total lines: ''),
                               PInt (max_line st), PStr [CHR 0x0A]])]
                            @ map (\<lambda>item. (Stdout, Plain, [PStr (''*  '' @ snd item)]))
                                (sort (current_list st))\<rparr>)
            \<and> sorted (map fst (sort (current_list st))))"
    by (simp add: menu_run [OF assms] nav_then_show sorted_positions i menu_sending_def
        menu_header_def nl_def)
qed

text \<open>
  C8. Every token that is given and is not one of the six is to be answered by the
  not-valid line, without the status being shown again. For the empty token the handler
  does not do so: \<^verbatim>\<open>if command:\<close> is false for \<^verbatim>\<open>''\<close>, so \<^verbatim>\<open>menu ''\<close> on a ready menu
  reads the status a second time and prints it, exactly as \<^verbatim>\<open>menu\<close> without an argument.
\<close>

theorem menu_empty_token_shows_status:
  "menu_status sample_avr [] = Inr sample_menu \<and> ready sample_menu
   \<and> [] \<notin> set [''up'', ''down'', ''left'', ''right'', ''select'', ''return'']
   \<and> menu sample_avr (Some []) w0 =
       (Inr (), \<lparr>calls = [GetMenuStatus, GetMenuStatus],
                 out = [(Stdout, Plain,
                         [PStr (CHR 0x0A # ''Ready: ''), PBool True,
                          PStr (CHR 0x0A # ''Layer: ''), PInt 1,
                          PStr (CHR 0x0A # ''Name: NET RADIO'' @ [CHR 0x0A, CHR 0x0A]
                                @ ''Total lines: ''),
                          PInt 2, PStr [CHR 0x0A]]),
                        (Stdout, Plain, [PStr ''*  Bookmarks'']),
                        (Stdout, Plain, [PStr ''*  Podcasts''])]\<rparr>)
   \<and> menu sample_avr (Some []) w0 = menu sample_avr None w0"
proof -
  have s: "sort (current_list sample_menu) = [(1, ''Bookmarks''), (2, ''Podcasts'')]"
    by (simp add: sample_menu_def less_eq_prod_def)
  have g: "menu_status sample_avr h = Inr sample_menu" for h
    by (simp add: sample_avr_def)
  have r: "ready sample_menu"
    by (simp add: sample_menu_def)
  have h: "menu_header sample_menu =
      (Stdout, Plain,
       [PStr (CHR 0x0A # ''Ready: ''), PBool True,
        PStr (CHR 0x0A # ''Layer: ''), PInt 1,
        PStr (CHR 0x0A # ''Name: NET RADIO'' @ [CHR 0x0A, CHR 0x0A] @ ''Total lines: ''),
        PInt 2, PStr [CHR 0x0A]])"
    by (simp add: menu_header_def sample_menu_def nl_def)
  have m: "menu sample_avr (Some []) w0 = show_menu sample_avr (w0\<lparr>calls := [GetMenuStatus]\<rparr>)"
    "menu sample_avr None w0 = show_menu sample_avr (w0\<lparr>calls := [GetMenuStatus]\<rparr>)"
    by (simp_all add: menu_def g r io_bind_def device_def w0_def)
  have v: "show_menu sample_avr (w0\<lparr>calls := [GetMenuStatus]\<rparr>) =
       (Inr (), \<lparr>calls = [GetMenuStatus, GetMenuStatus],
                 out = [(Stdout, Plain,
                         [PStr (CHR 0x0A # ''Ready: ''), PBool True,
                          PStr (CHR 0x0A # ''Layer: ''), PInt 1,
                          PStr (CHR 0x0A # ''Name: NET RADIO'' @ [CHR 0x0A, CHR 0x0A]
                                @ ''Total lines: ''),
                          PInt 2, PStr [CHR 0x0A]]),
                        (Stdout, Plain, [PStr ''*  Bookmarks'']),
                        (Stdout, Plain, [PStr ''*  Podcasts''])]\<rparr>)"
    by (simp add: show_menu_run g s h menu_item_def w0_def)
  show ?thesis
    by (simp add: g r m v)
qed

subsection \<open>Letter case of on and off\<close>

text \<open>
  \<^verbatim>\<open>power\<close> tests the lowered argument and sets the power to its comparison with
  \<^verbatim>\<open>on\<close>; every exception of the setter is answered by \<open>standby_message\<close>.
  \<^verbatim>\<open>mute\<close> lowers the argument too and sets mute to the same comparison.
\<close>

lemma power_accepts:
  assumes "given \<noteq> []" and "lower given \<in> set [''on'', ''off'']"
  shows "calls (snd (power avr (Some given) w)) = calls w @ [SetOn (lower given = ''on'')]
    \<and> fst (power avr (Some given) w) = Inr ()
    \<and> out (snd (power avr (Some given) w)) =
        out w @ [case set_on avr (calls w) (lower given = ''on'') of
                   Inl e \<Rightarrow> standby_message
                 | Inr u \<Rightarrow> (Stdout, Plain, [PStr (''Turned the receiver '' @ lower given)])]"
  using assms
  by (auto simp add: power_def Let_def io_defs split: sum.splits)

lemma mute_sets:
  assumes "given \<noteq> []" and "basic_status avr (calls w) = Inr st"
  shows "calls (snd (mute avr (Some given) w)) =
      calls w @ [GetBasicStatus, SetMute (lower given = ''on'')]"
  using assms
  by (auto simp add: mute_def mute_rejected_def Let_def io_defs split: sum.splits exn.splits)

text \<open>
  C9. \<^verbatim>\<open>power\<close> and \<^verbatim>\<open>mute\<close> lower their argument first, so \<^verbatim>\<open>ON\<close>, \<^verbatim>\<open>On\<close> and
  \<^verbatim>\<open>OFF\<close> act as \<^verbatim>\<open>on\<close>, \<^verbatim>\<open>on\<close> and \<^verbatim>\<open>off\<close>; \<^verbatim>\<open>output\<close> compares its state as it is
  and answers \<^verbatim>\<open>ON\<close> and \<^verbatim>\<open>OFF\<close> with \<open>state_message\<close>.
\<close>

theorem letter_case_of_on_off:
  "lower ''ON'' = ''on'' \<and> lower ''On'' = ''on'' \<and> lower ''OFF'' = ''off''
   \<and> (given \<noteq> [] \<and> lower given \<in> set [''on'', ''off''] \<longrightarrow>
        calls (snd (power avr (Some given) w)) = calls w @ [SetOn (lower given = ''on'')]
        \<and> (set_on avr (calls w) (lower given = ''on'') = Inr () \<longrightarrow>
             out (snd (power avr (Some given) w)) =
               out w @ [(Stdout, Plain, [PStr (''Turned the receiver '' @ lower given)])]))
   \<and> (given \<noteq> [] \<and> basic_status avr (calls w) = Inr st \<longrightarrow>
        calls (snd (mute avr (Some given) w)) =
          calls w @ [GetBasicStatus, SetMute (lower given = ''on'')])
   \<and> output_cmd avr output ''ON'' w = (Inr (), w\<lparr>out := out w @ [state_message]\<rparr>)
   \<and> output_cmd avr output ''OFF'' w = (Inr (), w\<lparr>out := out w @ [state_message]\<rparr>)"
proof -
  have a: "lower ''ON'' = ''on'' \<and> lower ''On'' = ''on'' \<and> lower ''OFF'' = ''off''"
    by code_simp
  have b: "calls (snd (power avr (Some given) w)) = calls w @ [SetOn (lower given = ''on'')]
        \<and> (set_on avr (calls w) (lower given = ''on'') = Inr () \<longrightarrow>
             out (snd (power avr (Some given) w)) =
               out w @ [(Stdout, Plain, [PStr (''Turned the receiver '' @ lower given)])])"
    if "given \<noteq> []" and "lower given \<in> set [''on'', ''off'']"
    using power_accepts [OF that, of avr w] by simp
  have c: "calls (snd (mute avr (Some given) w)) =
          calls w @ [GetBasicStatus, SetMute (lower given = ''on'')]"
    if "given \<noteq> []" and "basic_status avr (calls w) = Inr st"
    using mute_sets [OF that] .
  have d: "output_cmd avr output ''ON'' w = (Inr (), w\<lparr>out := out w @ [state_message]\<rparr>)"
    by (simp add: output_cmd_def io_defs)
  have e: "output_cmd avr output ''OFF'' w = (Inr (), w\<lparr>out := out w @ [state_message]\<rparr>)"
    by (simp add: output_cmd_def io_defs)
  from a b c d e show ?thesis by blast
qed

theorem letter_case_of_on_off_witness:
  "''ON'' \<noteq> [] \<and> lower ''ON'' \<in> set [''on'', ''off'']
   \<and> set_on sample_avr (calls w0) (lower ''ON'' = ''on'') = Inr ()
   \<and> basic_status sample_avr (calls w0) = Inr sample_status
   \<and> calls (snd (power sample_avr (Some ''ON'') w0)) = [SetOn True]
   \<and> out (snd (power sample_avr (Some ''ON'') w0)) =
        [(Stdout, Plain, [PStr ''Turned the receiver on''])]
   \<and> calls (snd (mute sample_avr (Some ''ON'') w0)) = [GetBasicStatus, SetMute True]"
proof -
  have l: "lower ''ON'' = ''on''"
    by code_simp
  have a: "''ON'' \<noteq> [] \<and> lower ''ON'' \<in> set [''on'', ''off'']"
    by (simp add: l)
  have b: "set_on sample_avr (calls w0) (lower ''ON'' = ''on'') = Inr ()"
    by (simp add: sample_avr_def)
  have c: "basic_status sample_avr (calls w0) = Inr sample_status"
    by (simp add: sample_avr_def)
  note t = letter_case_of_on_off [of "''ON''" sample_avr w0 sample_status]
  from t a b have d: "calls (snd (power sample_avr (Some ''ON'') w0)) = [SetOn True]
     \<and> out (snd (power sample_avr (Some ''ON'') w0)) =
        [(Stdout, Plain, [PStr ''Turned the receiver on''])]"
    by (simp add: l w0_def)
  from t a c have e: "calls (snd (mute sample_avr (Some ''ON'') w0)) =
      [GetBasicStatus, SetMute True]"
    by (simp add: l w0_def)
  from a b c d e show ?thesis by blast
qed

end
